theory Spec2Isabelle
  imports Main "HOL-Library.Word"
begin

unbundle bit_operations_syntax

section \<open>Python values\<close>

text \<open>
  The adapters of \<^verbatim>\<open>langchain_xinference\<close> only reshape JSON-like values that come back
  from the Xinference cluster. A value is \<^verbatim>\<open>None\<close>, a bool, an unbounded integer, an IEEE
  double (kept as its 64 bits), a string, a list or a dict with string keys. A dict is an
  association list in insertion order; a Python dict never holds a key twice.
\<close>

datatype pyval =
    PNone
  | PBool bool
  | PInt int
  | PFloat "64 word"
  | PStr string
  | PList "pyval list"
  | PDict "(string \<times> pyval) list"

type_synonym dict = "(string \<times> pyval) list"

text \<open>The exceptions that the adapters raise themselves or let through.\<close>

datatype error =
    ImportError string
  | ValueError string
  | RuntimeError string
  | TypeError string
  | KeyError string
  | IndexError string
  | AttributeError string
  | ValidationError string
  | RemoteError string

text \<open>
  Truth value testing (\<^verbatim>\<open>if x:\<close>). A float is false exactly when it is \<^verbatim>\<open>0.0\<close> or
  \<^verbatim>\<open>-0.0\<close>, that is when all bits but the sign bit are zero.
\<close>

fun truthy :: "pyval \<Rightarrow> bool" where
  "truthy PNone = False"
| "truthy (PBool b) = b"
| "truthy (PInt i) = (i \<noteq> 0)"
| "truthy (PFloat w) = (push_bit 1 w \<noteq> 0)"
| "truthy (PStr s) = (s \<noteq> [])"
| "truthy (PList xs) = (xs \<noteq> [])"
| "truthy (PDict d) = (d \<noteq> [])"


fun type_name :: "pyval \<Rightarrow> string" where
  "type_name PNone = ''NoneType''"
| "type_name (PBool b) = ''bool''"
| "type_name (PInt i) = ''int''"
| "type_name (PFloat w) = ''float''"
| "type_name (PStr s) = ''str''"
| "type_name (PList xs) = ''list''"
| "type_name (PDict d) = ''dict''"

text \<open>\<^verbatim>\<open>d.get(k, default)\<close>\<close>

definition dict_get :: "dict \<Rightarrow> string \<Rightarrow> pyval \<Rightarrow> pyval" where
  "dict_get d k dflt = (case map_of d k of Some v \<Rightarrow> v | None \<Rightarrow> dflt)"

text \<open>\<^verbatim>\<open>d[k] = v\<close>: an existing key keeps its place, a new key goes to the end.\<close>

fun dict_set :: "dict \<Rightarrow> string \<Rightarrow> pyval \<Rightarrow> dict" where
  "dict_set [] k v = [(k, v)]"
| "dict_set ((k', v') # d) k v =
     (if k' = k then (k, v) # d else (k', v') # dict_set d k v)"

text \<open>\<^verbatim>\<open>{**a, **b}\<close>: the items of \<^verbatim>\<open>b\<close> are stored into a copy of \<^verbatim>\<open>a\<close>, in order.\<close>

definition dict_merge :: "dict \<Rightarrow> dict \<Rightarrow> dict" where
  "dict_merge a b = fold (\<lambda>(k, v) d. dict_set d k v) b a"

text \<open>\<^verbatim>\<open>v[k]\<close> for a string key \<^verbatim>\<open>k\<close>.\<close>

fun getitem_str :: "pyval \<Rightarrow> string \<Rightarrow> error + pyval" where
  "getitem_str (PDict d) k =
     (case map_of d k of Some v \<Rightarrow> Inr v | None \<Rightarrow> Inl (KeyError k))"
| "getitem_str (PList xs) k =
     Inl (TypeError ''list indices must be integers or slices, not str'')"
| "getitem_str (PStr s) k =
     Inl (TypeError ''string indices must be integers, not str'')"
| "getitem_str v k =
     Inl (TypeError (type_name v @ '' object is not subscriptable''))"

text \<open>\<^verbatim>\<open>v[0]\<close>. The keys of a dict are strings here, so \<^verbatim>\<open>0\<close> is never one of them.\<close>

fun getitem_0 :: "pyval \<Rightarrow> error + pyval" where
  "getitem_0 (PList []) = Inl (IndexError ''list index out of range'')"
| "getitem_0 (PList (x # xs)) = Inr x"
| "getitem_0 (PStr []) = Inl (IndexError ''string index out of range'')"
| "getitem_0 (PStr (c # s)) = Inr (PStr [c])"
| "getitem_0 (PDict d) = Inl (KeyError ''0'')"
| "getitem_0 v =
     Inl (TypeError (type_name v @ '' object is not subscriptable''))"

text \<open>
  Iteration (\<^verbatim>\<open>for x in v\<close>, \<^verbatim>\<open>map(f, v)\<close>): a list gives its elements, a string its
  characters, a dict its keys; nothing else is iterable.
\<close>

fun py_iter :: "pyval \<Rightarrow> error + pyval list" where
  "py_iter (PList xs) = Inr xs"
| "py_iter (PStr s) = Inr (map (\<lambda>c. PStr [c]) s)"
| "py_iter (PDict d) = Inr (map (\<lambda>kv. PStr (fst kv)) d)"
| "py_iter v = Inl (TypeError (type_name v @ '' object is not iterable''))"

section \<open>The cluster and its client library\<close>

text \<open>
  The REST client library and the cluster are not part of the repository; they are
  parameters of the model. Every remote call is recorded, and a remote answer may depend
  on all calls made before it, so the cluster may be any deterministic state machine.
\<close>

datatype call =
    GetModel string
  | CreateEmbedding string
  | Generate string dict

type_synonym history = "call list"

text \<open>
  \<^verbatim>\<open>generate\<close> returns one response, or an iterator over response fragments when the
  options ask for streaming.
\<close>

datatype response = Completion pyval | StreamIter "pyval list"

record model_handle =
  create_embedding :: "history \<Rightarrow> string \<Rightarrow> error + pyval"
  generate :: "history \<Rightarrow> string \<Rightarrow> dict \<Rightarrow> error + response"

record client_handle =
  get_model :: "history \<Rightarrow> string \<Rightarrow> error + model_handle"

record client_lib =
  RESTfulClient :: "string \<Rightarrow> string option \<Rightarrow> error + client_handle"
  AsyncRESTfulClient :: "string \<Rightarrow> string option \<Rightarrow> error + client_handle"

record http_response =
  status_code :: int
  json :: "error + pyval"

text \<open>
  The environment of a constructor: the two packages that may provide the client classes
  (\<^verbatim>\<open>xinference.client\<close>, then \<^verbatim>\<open>xinference_client\<close>; \<open>None\<close> when the import fails)
  and \<^verbatim>\<open>requests.get\<close>. Two builtins are parameters too, where their result is outside
  this model: \<^verbatim>\<open>str\<close> on a value that is not a string, and \<^verbatim>\<open>float\<close> on a bool, an
  integer or a string (rounding and parsing).
\<close>

record env =
  xinference_pkg :: "client_lib option"
  xinference_client_pkg :: "client_lib option"
  requests_get :: "string \<Rightarrow> error + http_response"
  str_of :: "pyval \<Rightarrow> string"
  float_of :: "pyval \<Rightarrow> error + 64 word"

definition import_clients :: "env \<Rightarrow> error + client_lib" where
  "import_clients E =
     (case xinference_pkg E of
        Some L \<Rightarrow> Inr L
      | None \<Rightarrow>
          (case xinference_client_pkg E of
             Some L \<Rightarrow> Inr L
           | None \<Rightarrow>
               Inl (ImportError
                 (''Could not import RESTfulClient from xinference. Please install it''
                  @ '' with `pip install xinference` or `pip install xinference_client`.''))))"

text \<open>\<^verbatim>\<open>f"{v}"\<close>\<close>

fun format_value :: "env \<Rightarrow> pyval \<Rightarrow> string" where
  "format_value E (PStr s) = s"
| "format_value E v = str_of E v"

section \<open>The authentication probe\<close>

text \<open>
  \<^verbatim>\<open>_check_cluster_authenticated\<close>, the same text in both classes: the result is the
  value stored into \<^verbatim>\<open>self._cluster_authed\<close>; \<^verbatim>\<open>bool(v)\<close> is the truth value of \<open>v\<close>.
\<close>

definition check_cluster_authenticated :: "env \<Rightarrow> string \<Rightarrow> error + bool" where
  "check_cluster_authenticated E server_url =
     (case requests_get E (server_url @ ''/v1/cluster/auth'') of
        Inl e \<Rightarrow> Inl e
      | Inr response \<Rightarrow>
          if status_code response = 404 then Inr False
          else if status_code response \<noteq> 200 then
            (case json response of
               Inl e \<Rightarrow> Inl e
             | Inr body \<Rightarrow>
                 (case getitem_str body ''detail'' of
                    Inl e \<Rightarrow> Inl e
                  | Inr detail \<Rightarrow>
                      Inl (RuntimeError
                        (''Failed to get cluster information, detail: ''
                         @ format_value E detail))))
          else
            (case json response of
               Inl e \<Rightarrow> Inl e
             | Inr response_data \<Rightarrow>
                 (case getitem_str response_data ''auth'' of
                    Inl e \<Rightarrow> Inl e
                  | Inr auth \<Rightarrow> Inr (truthy auth))))"

text \<open>
  What both constructors do after their parameter checks: probe, set the header, build the
  blocking client, build the non-blocking client and keep \<open>None\<close> when that raises
  \<^verbatim>\<open>RuntimeError\<close>.
\<close>

definition auth_headers :: "string option \<Rightarrow> bool \<Rightarrow> (string \<times> string) list" where
  "auth_headers api_key cluster_authed =
     (case api_key of
        Some k \<Rightarrow> if cluster_authed then [(''Authorization'', ''Bearer '' @ k)] else []
      | None \<Rightarrow> [])"

definition make_async_client ::
  "client_lib \<Rightarrow> string \<Rightarrow> string option \<Rightarrow> error + client_handle option" where
  "make_async_client L server_url api_key =
     (case AsyncRESTfulClient L server_url api_key of
        Inr c \<Rightarrow> Inr (Some c)
      | Inl (RuntimeError m) \<Rightarrow> Inr None
      | Inl e \<Rightarrow> Inl e)"

section \<open>The embedding adapter\<close>

record XinferenceEmbeddings =
  emb_server_url :: string
  emb_model_uid :: string
  emb_headers :: "(string \<times> string) list"
  emb_cluster_authed :: bool
  emb_client :: client_handle
  emb_async_client :: "client_handle option"

definition XinferenceEmbeddings_init ::
  "env \<Rightarrow> string option \<Rightarrow> string option \<Rightarrow> string option \<Rightarrow> error + XinferenceEmbeddings" where
  "XinferenceEmbeddings_init E server_url model_uid api_key =
     (case import_clients E of
        Inl e \<Rightarrow> Inl e
      | Inr L \<Rightarrow>
          (case server_url of
             None \<Rightarrow> Inl (ValueError ''Please provide server URL'')
           | Some url \<Rightarrow>
               (case model_uid of
                  None \<Rightarrow> Inl (ValueError ''Please provide the model UID'')
                | Some uid \<Rightarrow>
                    (case check_cluster_authenticated E url of
                       Inl e \<Rightarrow> Inl e
                     | Inr authed \<Rightarrow>
                         (case RESTfulClient L url api_key of
                            Inl e \<Rightarrow> Inl e
                          | Inr c \<Rightarrow>
                              (case make_async_client L url api_key of
                                 Inl e \<Rightarrow> Inl e
                               | Inr ac \<Rightarrow>
                                   Inr \<lparr> emb_server_url = url,
                                         emb_model_uid = uid,
                                         emb_headers = auth_headers api_key authed,
                                         emb_cluster_authed = authed,
                                         emb_client = c,
                                         emb_async_client = ac \<rparr>))))))"

text \<open>
  \<^verbatim>\<open>float(v)\<close>: a float is returned as it is; \<^verbatim>\<open>None\<close>, a list and a dict are
  rejected.
\<close>

fun to_float :: "env \<Rightarrow> pyval \<Rightarrow> error + 64 word" where
  "to_float E (PFloat w) = Inr w"
| "to_float E PNone =
     Inl (TypeError ''float() argument must be a string or a real number, not NoneType'')"
| "to_float E (PList xs) =
     Inl (TypeError ''float() argument must be a string or a real number, not list'')"
| "to_float E (PDict d) =
     Inl (TypeError ''float() argument must be a string or a real number, not dict'')"
| "to_float E v = float_of E v"

text \<open>A comprehension whose body may raise: the first exception ends it.\<close>

fun map_err :: "('a \<Rightarrow> error + 'b) \<Rightarrow> 'a list \<Rightarrow> error + 'b list" where
  "map_err f [] = Inr []"
| "map_err f (x # xs) =
     (case f x of
        Inl e \<Rightarrow> Inl e
      | Inr y \<Rightarrow> (case map_err f xs of Inl e \<Rightarrow> Inl e | Inr ys \<Rightarrow> Inr (y # ys)))"

text \<open>\<^verbatim>\<open>list(map(float, e))\<close>\<close>

definition float_list :: "env \<Rightarrow> pyval \<Rightarrow> error + 64 word list" where
  "float_list E e =
     (case py_iter e of Inl err \<Rightarrow> Inl err | Inr xs \<Rightarrow> map_err (to_float E) xs)"

text \<open>\<^verbatim>\<open>r["data"][0]["embedding"]\<close>\<close>

definition extract_embedding :: "pyval \<Rightarrow> error + pyval" where
  "extract_embedding r =
     (case getitem_str r ''data'' of
        Inl e \<Rightarrow> Inl e
      | Inr d \<Rightarrow>
          (case getitem_0 d of
             Inl e \<Rightarrow> Inl e
           | Inr x \<Rightarrow> getitem_str x ''embedding''))"

text \<open>
  \<^verbatim>\<open>[model.create_embedding(text)["data"][0]["embedding"] for text in texts]\<close>: the
  texts are sent one by one, each call is recorded, and the first exception ends the loop.
\<close>

fun request_embeddings ::
  "model_handle \<Rightarrow> history \<Rightarrow> string list \<Rightarrow> history \<times> (error + pyval list)" where
  "request_embeddings model h [] = (h, Inr [])"
| "request_embeddings model h (text # texts) =
     (case create_embedding model h text of
        Inl e \<Rightarrow> (h @ [CreateEmbedding text], Inl e)
      | Inr r \<Rightarrow>
          (case extract_embedding r of
             Inl e \<Rightarrow> (h @ [CreateEmbedding text], Inl e)
           | Inr emb \<Rightarrow>
               (case request_embeddings model (h @ [CreateEmbedding text]) texts of
                  (h', Inl e) \<Rightarrow> (h', Inl e)
                | (h', Inr embs) \<Rightarrow> (h', Inr (emb # embs)))))"

text \<open>
  The body shared by \<^verbatim>\<open>embed_documents\<close> and \<^verbatim>\<open>aembed_documents\<close>, which differ
  in the client they use (and in \<^verbatim>\<open>await\<close>, which this sequential model does not see).
\<close>

definition documents_via ::
  "env \<Rightarrow> client_handle \<Rightarrow> string \<Rightarrow> history \<Rightarrow> string list
     \<Rightarrow> history \<times> (error + 64 word list list)" where
  "documents_via E c uid h texts =
     (case get_model c h uid of
        Inl e \<Rightarrow> (h @ [GetModel uid], Inl e)
      | Inr model \<Rightarrow>
          (case request_embeddings model (h @ [GetModel uid]) texts of
             (h', Inl e) \<Rightarrow> (h', Inl e)
           | (h', Inr embeddings) \<Rightarrow> (h', map_err (float_list E) embeddings)))"

definition query_via ::
  "env \<Rightarrow> client_handle \<Rightarrow> string \<Rightarrow> history \<Rightarrow> string
     \<Rightarrow> history \<times> (error + 64 word list)" where
  "query_via E c uid h text =
     (case get_model c h uid of
        Inl e \<Rightarrow> (h @ [GetModel uid], Inl e)
      | Inr model \<Rightarrow>
          (h @ [GetModel uid, CreateEmbedding text],
           (case create_embedding model (h @ [GetModel uid]) text of
              Inl e \<Rightarrow> Inl e
            | Inr embedding_res \<Rightarrow>
                (case extract_embedding embedding_res of
                   Inl e \<Rightarrow> Inl e
                 | Inr embedding \<Rightarrow> float_list E embedding))))"


text \<open>
  The asynchronous methods read \<^verbatim>\<open>self.async_client.get_model\<close> without a test; on
  \<^verbatim>\<open>None\<close> the attribute access raises.
\<close>

definition aembed_documents ::
  "env \<Rightarrow> XinferenceEmbeddings \<Rightarrow> history \<Rightarrow> string list
     \<Rightarrow> history \<times> (error + 64 word list list)" where
  "aembed_documents E self h texts =
     (case emb_async_client self of
        None \<Rightarrow> (h, Inl (AttributeError ''NoneType object has no attribute get_model''))
      | Some c \<Rightarrow> documents_via E c (emb_model_uid self) h texts)"

definition embed_query ::
  "env \<Rightarrow> XinferenceEmbeddings \<Rightarrow> history \<Rightarrow> string
     \<Rightarrow> history \<times> (error + 64 word list)" where
  "embed_query E self h text =
     query_via E (emb_client self) (emb_model_uid self) h text"

definition aembed_query ::
  "env \<Rightarrow> XinferenceEmbeddings \<Rightarrow> history \<Rightarrow> string
     \<Rightarrow> history \<times> (error + 64 word list)" where
  "aembed_query E self h text =
     (case emb_async_client self of
        None \<Rightarrow> (h, Inl (AttributeError ''NoneType object has no attribute get_model''))
      | Some c \<Rightarrow> query_via E c (emb_model_uid self) h text)"

section \<open>The completion adapter\<close>

record Xinference =
  llm_server_url :: string
  llm_model_uid :: string
  model_kwargs :: dict
  llm_headers :: "(string \<times> string) list"
  llm_cluster_authed :: bool
  llm_client :: "client_handle option"
  llm_async_client :: "client_handle option"

definition Xinference_init ::
  "env \<Rightarrow> string option \<Rightarrow> string option \<Rightarrow> string option \<Rightarrow> dict \<Rightarrow> error + Xinference" where
  "Xinference_init E server_url model_uid api_key kwargs =
     (case import_clients E of
        Inl e \<Rightarrow> Inl e
      | Inr L \<Rightarrow>
          (case server_url of
             None \<Rightarrow> Inl (ValueError ''Please provide server URL'')
           | Some url \<Rightarrow>
               (case model_uid of
                  None \<Rightarrow> Inl (ValueError ''Please provide the model UID'')
                | Some uid \<Rightarrow>
                    (case check_cluster_authenticated E url of
                       Inl e \<Rightarrow> Inl e
                     | Inr authed \<Rightarrow>
                         (case RESTfulClient L url api_key of
                            Inl e \<Rightarrow> Inl e
                          | Inr c \<Rightarrow>
                              (case make_async_client L url api_key of
                                 Inl e \<Rightarrow> Inl e
                               | Inr ac \<Rightarrow>
                                   Inr \<lparr> llm_server_url = url,
                                         llm_model_uid = uid,
                                         model_kwargs = kwargs,
                                         llm_headers = auth_headers api_key authed,
                                         llm_cluster_authed = authed,
                                         llm_client = Some c,
                                         llm_async_client = ac \<rparr>))))))"

subsection \<open>Options of a call\<close>

text \<open>
  \<^verbatim>\<open>kwargs.get("generate_config", {})\<close>, which \<^verbatim>\<open>{**self.model_kwargs, **generate_config}\<close>
  then unpacks: anything but a mapping raises.
\<close>

definition kwargs_generate_config :: "dict \<Rightarrow> error + dict" where
  "kwargs_generate_config kwargs =
     (case dict_get kwargs ''generate_config'' (PDict []) of
        PDict gc \<Rightarrow> Inr gc
      | v \<Rightarrow> Inl (TypeError (type_name v @ '' object is not a mapping'')))"

text \<open>\<^verbatim>\<open>if stop: generate_config["stop"] = stop\<close>\<close>

fun with_stop :: "string list option \<Rightarrow> dict \<Rightarrow> dict" where
  "with_stop None generate_config = generate_config"
| "with_stop (Some []) generate_config = generate_config"
| "with_stop (Some stop) generate_config =
     dict_set generate_config ''stop'' (PList (map PStr stop))"

text \<open>The options of \<^verbatim>\<open>_call\<close> and \<^verbatim>\<open>_acall\<close>.\<close>

definition call_options :: "Xinference \<Rightarrow> string list option \<Rightarrow> dict \<Rightarrow> dict" where
  "call_options self stop gc = with_stop stop (dict_merge (model_kwargs self) gc)"

text \<open>
  The options of \<^verbatim>\<open>_stream\<close> and \<^verbatim>\<open>_astream\<close>, which then store
  \<^verbatim>\<open>generate_config["stream"] = True\<close> unless a true value is there.
\<close>

definition force_stream :: "dict \<Rightarrow> dict" where
  "force_stream generate_config =
     (if ''stream'' \<in> fst ` set generate_config
      then (if truthy (dict_get generate_config ''stream'' (PBool False))
            then generate_config
            else dict_set generate_config ''stream'' (PBool True))
      else dict_set generate_config ''stream'' (PBool True))"

definition stream_options :: "Xinference \<Rightarrow> string list option \<Rightarrow> dict \<Rightarrow> dict" where
  "stream_options self stop gc =
     force_stream (with_stop stop (dict_merge (model_kwargs self) gc))"

subsection \<open>Generators\<close>

text \<open>
  What a generator does when it is consumed: it yields a value (after the notifications
  it has sent to the run manager since the last yield), or stops, or raises. The consumer
  decides how far it reads.
\<close>

datatype notification = NewToken pyval "pyval option"

datatype 'a generator =
    Stop
  | Raises error
  | Yield "notification list" 'a "'a generator"

fun yielded :: "'a generator \<Rightarrow> 'a list" where
  "yielded Stop = []"
| "yielded (Raises e) = []"
| "yielded (Yield ns x g) = x # yielded g"

fun raised :: "'a generator \<Rightarrow> error option" where
  "raised Stop = None"
| "raised (Raises e) = Some e"
| "raised (Yield ns x g) = raised g"

fun notifications :: "'a generator \<Rightarrow> notification list" where
  "notifications Stop = []"
| "notifications (Raises e) = []"
| "notifications (Yield ns x g) = ns @ notifications g"

text \<open>\<^verbatim>\<open>for x in model.generate(...)\<close>: what the loop iterates over.\<close>

fun iterate_response :: "response \<Rightarrow> error + pyval list" where
  "iterate_response (StreamIter fragments) = Inr fragments"
| "iterate_response (Completion v) = py_iter v"

text \<open>
  \<^verbatim>\<open>GenerationChunk\<close> is a pydantic model of \<^verbatim>\<open>langchain_core\<close> with the fields
  \<^verbatim>\<open>text: str\<close> (\<open>chunk_text\<close> here) and \<^verbatim>\<open>generation_info\<close>, a dict or \<^verbatim>\<open>None\<close>
  (the default). Its constructor validates: a text that is not a string raises
  \<^verbatim>\<open>ValidationError\<close>.
\<close>

record GenerationChunk =
  chunk_text :: string
  generation_info :: "dict option"

fun new_GenerationChunk :: "pyval \<Rightarrow> dict option \<Rightarrow> error + GenerationChunk" where
  "new_GenerationChunk (PStr s) info = Inr \<lparr> chunk_text = s, generation_info = info \<rparr>"
| "new_GenerationChunk v info =
     Inl (ValidationError (''text: Input should be a valid string, got '' @ type_name v))"

text \<open>\<^verbatim>\<open>_stream_response_to_generation_chunk\<close>\<close>

definition stream_response_to_generation_chunk :: "pyval \<Rightarrow> error + GenerationChunk" where
  "stream_response_to_generation_chunk stream_response =
     (case stream_response of
        PDict d \<Rightarrow>
          (let choices = dict_get d ''choices'' (PList []) in
           if truthy choices then
             (case getitem_0 choices of
                Inl e \<Rightarrow> Inl e
              | Inr choice \<Rightarrow>
                  (case choice of
                     PDict c \<Rightarrow>
                       (let token = dict_get c ''text'' (PStr []) in
                        new_GenerationChunk token
                          (Some [(''finish_reason'', dict_get c ''finish_reason'' PNone),
                                 (''logprobs'', dict_get c ''logprobs'' PNone)]))
                   | _ \<Rightarrow> Inl (TypeError ''choice type error!'')))
           else new_GenerationChunk (PStr []) None)
      | _ \<Rightarrow> Inl (TypeError ''stream_response type error!''))"

text \<open>
  The loop of \<^verbatim>\<open>_stream\<close> and \<^verbatim>\<open>_astream\<close> over the fragments; \<open>run_manager\<close> says
  whether a run manager was passed.
\<close>

fun stream_loop :: "bool \<Rightarrow> pyval list \<Rightarrow> GenerationChunk generator" where
  "stream_loop run_manager [] = Stop"
| "stream_loop run_manager (stream_resp # rest) =
     (if truthy stream_resp then
        (case stream_response_to_generation_chunk stream_resp of
           Inl e \<Rightarrow> Raises e
         | Inr chunk \<Rightarrow>
             Yield (if run_manager then [NewToken (PStr (chunk_text chunk)) None] else [])
                   chunk (stream_loop run_manager rest))
      else stream_loop run_manager rest)"

text \<open>
  One round of the loop of \<^verbatim>\<open>_stream_generate\<close> and \<^verbatim>\<open>_astream_generate\<close>: the
  token and the log-probabilities of a fragment, or nothing.
\<close>

definition fragment_token :: "pyval \<Rightarrow> error + (pyval \<times> pyval) option" where
  "fragment_token chunk =
     (case chunk of
        PDict d \<Rightarrow>
          (let choices = dict_get d ''choices'' (PList []) in
           if truthy choices then
             (case getitem_0 choices of
                Inl e \<Rightarrow> Inl e
              | Inr choice \<Rightarrow>
                  (case choice of
                     PDict c \<Rightarrow>
                       Inr (Some (dict_get c ''text'' (PStr []), dict_get c ''logprobs'' PNone))
                   | _ \<Rightarrow> Inr None))
           else Inr None)
      | _ \<Rightarrow> Inr None)"

fun stream_generate_loop :: "bool \<Rightarrow> pyval list \<Rightarrow> pyval generator" where
  "stream_generate_loop run_manager [] = Stop"
| "stream_generate_loop run_manager (chunk # rest) =
     (case fragment_token chunk of
        Inl e \<Rightarrow> Raises e
      | Inr None \<Rightarrow> stream_generate_loop run_manager rest
      | Inr (Some (token, log_probs)) \<Rightarrow>
          Yield (if run_manager then [NewToken token (Some log_probs)] else [])
                token (stream_generate_loop run_manager rest))"

text \<open>
  \<^verbatim>\<open>_stream_generate\<close>; \<^verbatim>\<open>_astream_generate\<close> has the same body. The result is the
  history after the remote call and the generator.
\<close>

definition stream_generate ::
  "model_handle \<Rightarrow> history \<Rightarrow> string \<Rightarrow> bool \<Rightarrow> dict \<Rightarrow> history \<times> pyval generator" where
  "stream_generate model h prompt run_manager generate_config =
     (h @ [Generate prompt generate_config],
      (case generate model h prompt generate_config of
         Inl e \<Rightarrow> Raises e
       | Inr streaming_response \<Rightarrow>
           (case iterate_response streaming_response of
              Inl e \<Rightarrow> Raises e
            | Inr fragments \<Rightarrow> stream_generate_loop run_manager fragments)))"

text \<open>
  \<^verbatim>\<open>combined_text_output += token\<close> over a generator: the notifications received and
  the string, or the exception of the generator or of \<^verbatim>\<open>+=\<close> on a token that is not a
  string, whichever comes first.
\<close>

fun combine :: "string \<Rightarrow> pyval generator \<Rightarrow> notification list \<times> (error + string)" where
  "combine combined_text_output Stop = ([], Inr combined_text_output)"
| "combine combined_text_output (Raises e) = ([], Inl e)"
| "combine combined_text_output (Yield ns token g) =
     (case token of
        PStr s \<Rightarrow>
          (case combine (combined_text_output @ s) g of (ns', r) \<Rightarrow> (ns @ ns', r))
      | v \<Rightarrow>
          (ns, Inl (TypeError (''can only concatenate str (not '' @ type_name v @ '') to str''))))"

text \<open>\<^verbatim>\<open>completion["choices"][0]["text"]\<close>; an iterator is not subscriptable.\<close>

fun completion_text :: "response \<Rightarrow> error + pyval" where
  "completion_text (StreamIter fragments) =
     Inl (TypeError ''generator object is not subscriptable'')"
| "completion_text (Completion completion) =
     (case getitem_str completion ''choices'' of
        Inl e \<Rightarrow> Inl e
      | Inr choices \<Rightarrow>
          (case getitem_0 choices of
             Inl e \<Rightarrow> Inl e
           | Inr choice \<Rightarrow> getitem_str choice ''text''))"

subsection \<open>The four operations\<close>

record 'a outcome =
  calls :: history
  notified :: "notification list"
  result :: 'a

text \<open>
  The body of \<^verbatim>\<open>_call\<close> and of \<^verbatim>\<open>_acall\<close>, which differ in the client they use
  (and in \<^verbatim>\<open>await\<close>).
\<close>

definition call_via ::
  "client_handle option \<Rightarrow> Xinference \<Rightarrow> history \<Rightarrow> string \<Rightarrow> string list option \<Rightarrow> bool
     \<Rightarrow> dict \<Rightarrow> (error + pyval) outcome" where
  "call_via client self h prompt stop run_manager kwargs =
     (case client of
        None \<Rightarrow>
          \<lparr> calls = h, notified = [], result = Inl (ValueError ''Client is not initialized!'') \<rparr>
      | Some c \<Rightarrow>
          (let h1 = h @ [GetModel (llm_model_uid self)] in
           case get_model c h (llm_model_uid self) of
             Inl e \<Rightarrow> \<lparr> calls = h1, notified = [], result = Inl e \<rparr>
           | Inr model \<Rightarrow>
               (case kwargs_generate_config kwargs of
                  Inl e \<Rightarrow> \<lparr> calls = h1, notified = [], result = Inl e \<rparr>
                | Inr gc \<Rightarrow>
                    (let generate_config = call_options self stop gc in
                     if truthy (PDict generate_config)
                        \<and> truthy (dict_get generate_config ''stream'' PNone)
                     then
                       (case stream_generate model h1 prompt run_manager generate_config of
                          (h2, g) \<Rightarrow>
                            (case combine [] g of
                               (ns, r) \<Rightarrow>
                                 \<lparr> calls = h2, notified = ns, result = map_sum id PStr r \<rparr>))
                     else
                       \<lparr> calls = h1 @ [Generate prompt generate_config],
                         notified = [],
                         result =
                           (case generate model h1 prompt generate_config of
                              Inl e \<Rightarrow> Inl e
                            | Inr completion \<Rightarrow> completion_text completion) \<rparr>))))"

definition Xinference_call ::
  "Xinference \<Rightarrow> history \<Rightarrow> string \<Rightarrow> string list option \<Rightarrow> bool \<Rightarrow> dict
     \<Rightarrow> (error + pyval) outcome" where
  "Xinference_call self = call_via (llm_client self) self"

definition Xinference_acall ::
  "Xinference \<Rightarrow> history \<Rightarrow> string \<Rightarrow> string list option \<Rightarrow> bool \<Rightarrow> dict
     \<Rightarrow> (error + pyval) outcome" where
  "Xinference_acall self = call_via (llm_async_client self) self"

text \<open>
  The body of \<^verbatim>\<open>_stream\<close> and of \<^verbatim>\<open>_astream\<close>: the options are built before the
  client is tested. The result is the generator as its consumer sees it, with the remote
  calls made when it is consumed.
\<close>

definition stream_via ::
  "client_handle option \<Rightarrow> Xinference \<Rightarrow> history \<Rightarrow> string \<Rightarrow> string list option \<Rightarrow> bool
     \<Rightarrow> dict \<Rightarrow> history \<times> GenerationChunk generator" where
  "stream_via client self h prompt stop run_manager kwargs =
     (case kwargs_generate_config kwargs of
        Inl e \<Rightarrow> (h, Raises e)
      | Inr gc \<Rightarrow>
          (let generate_config = stream_options self stop gc in
           case client of
             None \<Rightarrow> (h, Raises (ValueError ''Client is not initialized!''))
           | Some c \<Rightarrow>
               (let h1 = h @ [GetModel (llm_model_uid self)] in
                case get_model c h (llm_model_uid self) of
                  Inl e \<Rightarrow> (h1, Raises e)
                | Inr model \<Rightarrow>
                    (h1 @ [Generate prompt generate_config],
                     (case generate model h1 prompt generate_config of
                        Inl e \<Rightarrow> Raises e
                      | Inr r \<Rightarrow>
                          (case iterate_response r of
                             Inl e \<Rightarrow> Raises e
                           | Inr fragments \<Rightarrow> stream_loop run_manager fragments))))))"

definition Xinference_stream ::
  "Xinference \<Rightarrow> history \<Rightarrow> string \<Rightarrow> string list option \<Rightarrow> bool \<Rightarrow> dict
     \<Rightarrow> history \<times> GenerationChunk generator" where
  "Xinference_stream self = stream_via (llm_client self) self"

definition Xinference_astream ::
  "Xinference \<Rightarrow> history \<Rightarrow> string \<Rightarrow> string list option \<Rightarrow> bool \<Rightarrow> dict
     \<Rightarrow> history \<times> GenerationChunk generator" where
  "Xinference_astream self = stream_via (llm_async_client self) self"

section \<open>A cluster to run the adapters against\<close>

text \<open>
  A model that answers every embedding request with one vector made of the length of the
  text and the number of calls seen so far, and every generation request with a fixed
  response; a client library whose non-blocking client may fail to start; an environment
  whose probe gets a fixed answer; and the two adapters as their constructors leave them
  on that cluster.
\<close>

definition fixed_model :: "response \<Rightarrow> model_handle" where
  "fixed_model r =
     \<lparr> create_embedding =
         (\<lambda>h text.
            Inr (PDict [(''data'',
                   PList [PDict [(''embedding'',
                     PList [PFloat (of_nat (length text)), PFloat (of_nat (length h))])]])])),
       generate = (\<lambda>h prompt generate_config. Inr r) \<rparr>"

definition fixed_client :: "response \<Rightarrow> client_handle" where
  "fixed_client r = \<lparr> get_model = (\<lambda>h uid. Inr (fixed_model r)) \<rparr>"

definition fixed_lib :: "bool \<Rightarrow> response \<Rightarrow> client_lib" where
  "fixed_lib async_ok r =
     \<lparr> RESTfulClient = (\<lambda>url key. Inr (fixed_client r)),
       AsyncRESTfulClient =
         (\<lambda>url key.
            if async_ok then Inr (fixed_client r)
            else Inl (RuntimeError ''no running event loop'')) \<rparr>"

definition fixed_env :: "bool \<Rightarrow> response \<Rightarrow> int \<Rightarrow> pyval \<Rightarrow> env" where
  "fixed_env async_ok r status body =
     \<lparr> xinference_pkg = None,
       xinference_client_pkg = Some (fixed_lib async_ok r),
       requests_get = (\<lambda>url. Inr \<lparr> status_code = status, json = Inr body \<rparr>),
       str_of = (\<lambda>v. ''<'' @ type_name v @ ''>''),
       float_of = (\<lambda>v. Inl (ValueError ''could not convert to float'')) \<rparr>"


definition demo_llm :: "dict \<Rightarrow> response \<Rightarrow> Xinference" where
  "demo_llm kwargs r =
     \<lparr> llm_server_url = ''http://0.0.0.0:9997'',
       llm_model_uid = ''m'',
       model_kwargs = kwargs,
       llm_headers = [],
       llm_cluster_authed = False,
       llm_client = Some (fixed_client r),
       llm_async_client = Some (fixed_client r) \<rparr>"

section \<open>Vocabulary of the properties\<close>

text \<open>
  The client is there, it hands out the model handle, and the model answers the
  generation request with the given options by a stream of these fragments.
\<close>

definition streams_back ::
  "client_handle option \<Rightarrow> Xinference \<Rightarrow> history \<Rightarrow> string \<Rightarrow> dict \<Rightarrow> pyval list \<Rightarrow> bool" where
  "streams_back client self h prompt options fragments =
     (case client of
        None \<Rightarrow> False
      | Some c \<Rightarrow>
          (case get_model c h (llm_model_uid self) of
             Inl e \<Rightarrow> False
           | Inr model \<Rightarrow>
               generate model (h @ [GetModel (llm_model_uid self)]) prompt options
                 = Inr (StreamIter fragments)))"


section \<open>Dicts\<close>

lemma map_of_dict_set: "map_of (dict_set d k v) = (map_of d)(k \<mapsto> v)"
  by (induction d) (auto simp: fun_eq_iff)

lemma map_of_rev_distinct: "distinct (map fst xs) \<Longrightarrow> map_of (rev xs) = map_of xs"
proof (induction xs)
  case Nil
  show ?case by simp
next
  case (Cons x xs)
  then have "fst x \<notin> dom (map_of xs)" by (simp add: dom_map_of_conv_image_fst)
  then have "map_of xs (fst x) = None" by blast
  with Cons show ?case
    by (cases x) (auto simp: fun_eq_iff map_add_def split: option.splits)
qed

lemma map_of_fold_dict_set:
  "map_of (fold (\<lambda>(k, v) d. dict_set d k v) b a) = map_of a ++ map_of (rev b)"
proof (induction b arbitrary: a)
  case Nil
  show ?case by simp
next
  case (Cons kv b)
  obtain k v where kv: "kv = (k, v)" by (cases kv)
  have "map_of (fold (\<lambda>(k, v) d. dict_set d k v) (kv # b) a)
          = map_of (dict_set a k v) ++ map_of (rev b)"
    using Cons.IH [of "dict_set a k v"] by (simp add: kv)
  also have "\<dots> = map_of a ++ map_of (rev (kv # b))"
    by (auto simp: kv map_of_dict_set fun_eq_iff map_add_def split: option.splits)
  finally show ?case .
qed

lemma map_of_dict_merge:
  "distinct (map fst b) \<Longrightarrow> map_of (dict_merge a b) = map_of a ++ map_of b"
  by (simp add: dict_merge_def map_of_fold_dict_set map_of_rev_distinct)

lemma dict_get_dict_set:
  "dict_get (dict_set d k v) k' dflt = (if k' = k then v else dict_get d k' dflt)"
  by (simp add: dict_get_def map_of_dict_set)

lemma fst_set_dict_set: "fst ` set (dict_set d k v) = insert k (fst ` set d)"
  by (induction d) force+

section \<open>Construction\<close>

lemma XinferenceEmbeddings_init_Inr:
  assumes "XinferenceEmbeddings_init E server_url model_uid api_key = Inr a"
  shows "\<exists>url uid authed.
           server_url = Some url \<and> model_uid = Some uid
           \<and> check_cluster_authenticated E url = Inr authed
           \<and> emb_headers a = auth_headers api_key authed"
  using assms
  by (auto simp: XinferenceEmbeddings_init_def split: sum.splits option.splits)

lemma Xinference_init_Inr:
  assumes "Xinference_init E server_url model_uid api_key kwargs = Inr a"
  shows "\<exists>url uid authed.
           server_url = Some url \<and> model_uid = Some uid
           \<and> check_cluster_authenticated E url = Inr authed
           \<and> llm_headers a = auth_headers api_key authed"
  using assms
  by (auto simp: Xinference_init_def split: sum.splits option.splits)

text \<open>
  C7. Constructing either adapter without a server URL, without a model UID or without
  both raises \<^verbatim>\<open>ValueError\<close>, the URL being tested first, once one of the two client
  packages has been imported.
\<close>

theorem missing_parameter_is_ValueError:
  assumes "import_clients E = Inr L"
    and "server_url = None \<or> model_uid = None"
  shows "XinferenceEmbeddings_init E server_url model_uid api_key
           = Inl (ValueError (if server_url = None then ''Please provide server URL''
                              else ''Please provide the model UID''))
         \<and> Xinference_init E server_url model_uid api_key kwargs
           = Inl (ValueError (if server_url = None then ''Please provide server URL''
                              else ''Please provide the model UID''))"
  using assms
  by (auto simp: XinferenceEmbeddings_init_def Xinference_init_def split: option.splits)

lemma import_fixed_env:
  "import_clients (fixed_env async_ok r status body) = Inr (fixed_lib async_ok r)"
  by (simp add: import_clients_def fixed_env_def)

theorem missing_parameter_is_ValueError_witness:
  "XinferenceEmbeddings_init (fixed_env True (StreamIter []) 404 PNone) None (Some ''m'') None
     = Inl (ValueError ''Please provide server URL'')
   \<and> Xinference_init (fixed_env True (StreamIter []) 404 PNone) None (Some ''m'') None []
     = Inl (ValueError ''Please provide server URL'')
   \<and> XinferenceEmbeddings_init (fixed_env True (StreamIter []) 404 PNone) (Some ''u'') None None
     = Inl (ValueError ''Please provide the model UID'')
   \<and> Xinference_init (fixed_env True (StreamIter []) 404 PNone) (Some ''u'') None None []
     = Inl (ValueError ''Please provide the model UID'')
   \<and> XinferenceEmbeddings_init (fixed_env True (StreamIter []) 404 PNone) None None None
     = Inl (ValueError ''Please provide server URL'')
   \<and> Xinference_init (fixed_env True (StreamIter []) 404 PNone) None None None []
     = Inl (ValueError ''Please provide server URL'')"
  using missing_parameter_is_ValueError [OF import_fixed_env, of None "Some ''m''" True "StreamIter []" 404 PNone None "[]"]
    missing_parameter_is_ValueError [OF import_fixed_env, of "Some ''u''" None True "StreamIter []" 404 PNone None "[]"]
    missing_parameter_is_ValueError [OF import_fixed_env, of None None True "StreamIter []" 404 PNone None "[]"]
  by simp

lemma check_404:
  "requests_get E (url @ ''/v1/cluster/auth'') = Inr response \<Longrightarrow> status_code response = 404
   \<Longrightarrow> check_cluster_authenticated E url = Inr False"
  by (simp add: check_cluster_authenticated_def)

lemma check_200:
  "requests_get E (url @ ''/v1/cluster/auth'') = Inr response \<Longrightarrow> status_code response = 200
   \<Longrightarrow> json response = Inr (PDict d) \<Longrightarrow> map_of d ''auth'' = Some v
   \<Longrightarrow> check_cluster_authenticated E url = Inr (truthy v)"
  by (simp add: check_cluster_authenticated_def)

lemma check_other:
  "requests_get E (url @ ''/v1/cluster/auth'') = Inr response
   \<Longrightarrow> status_code response \<noteq> 404 \<Longrightarrow> status_code response \<noteq> 200
   \<Longrightarrow> isl (check_cluster_authenticated E url)"
  by (simp add: check_cluster_authenticated_def split: sum.splits)

lemma check_other_detail:
  "requests_get E (url @ ''/v1/cluster/auth'') = Inr response
   \<Longrightarrow> status_code response \<noteq> 404 \<Longrightarrow> status_code response \<noteq> 200
   \<Longrightarrow> json response = Inr (PDict d) \<Longrightarrow> map_of d ''detail'' = Some detail
   \<Longrightarrow> check_cluster_authenticated E url
        = Inl (RuntimeError (''Failed to get cluster information, detail: ''
                             @ format_value E detail))"
  by (simp add: check_cluster_authenticated_def)

lemma init_isl_of_check:
  "isl (check_cluster_authenticated E url)
   \<Longrightarrow> isl (XinferenceEmbeddings_init E (Some url) uid key)
       \<and> isl (Xinference_init E (Some url) uid key kw)"
  by (auto simp: XinferenceEmbeddings_init_def Xinference_init_def
           split: sum.splits option.splits)

lemma init_of_check_Inl:
  "import_clients E = Inr L \<Longrightarrow> check_cluster_authenticated E url = Inl e
   \<Longrightarrow> XinferenceEmbeddings_init E (Some url) (Some uid) key = Inl e
       \<and> Xinference_init E (Some url) (Some uid) key kw = Inl e"
  by (simp add: XinferenceEmbeddings_init_def Xinference_init_def)

lemma init_of_check_Inr:
  "import_clients E = Inr L \<Longrightarrow> check_cluster_authenticated E url = Inr authed
   \<Longrightarrow> RESTfulClient L url key = Inr c \<Longrightarrow> make_async_client L url key = Inr ac
   \<Longrightarrow> XinferenceEmbeddings_init E (Some url) (Some uid) key
         = Inr \<lparr> emb_server_url = url, emb_model_uid = uid,
                 emb_headers = auth_headers key authed, emb_cluster_authed = authed,
                 emb_client = c, emb_async_client = ac \<rparr>
       \<and> Xinference_init E (Some url) (Some uid) key kw
         = Inr \<lparr> llm_server_url = url, llm_model_uid = uid, model_kwargs = kw,
                 llm_headers = auth_headers key authed, llm_cluster_authed = authed,
                 llm_client = Some c, llm_async_client = ac \<rparr>"
  by (simp add: XinferenceEmbeddings_init_def Xinference_init_def)

lemma probe_fixed_env:
  "requests_get (fixed_env async_ok r status body) (url @ ''/v1/cluster/auth'')
     = Inr \<lparr> status_code = status, json = Inr body \<rparr>"
  by (simp add: fixed_env_def)

lemma make_async_fixed_lib:
  "make_async_client (fixed_lib async_ok r) url key
     = Inr (if async_ok then Some (fixed_client r) else None)"
  by (simp add: make_async_client_def fixed_lib_def)

lemma RESTfulClient_fixed_lib: "RESTfulClient (fixed_lib async_ok r) url key = Inr (fixed_client r)"
  by (simp add: fixed_lib_def)



text \<open>
  C6, as stated, fails. A probe answered with the success status 201 and the body
  \<^verbatim>\<open>{"auth": true}\<close>, with a credential supplied: both constructors raise, so no
  adapter and no header come out of it.
\<close>

theorem success_201_auth_true_no_header:
  "XinferenceEmbeddings_init
       (fixed_env True (StreamIter []) 201 (PDict [(''auth'', PBool True)]))
       (Some ''http://0.0.0.0:9997'') (Some ''m'') (Some ''k'')
     = Inl (KeyError ''detail'')
   \<and> Xinference_init
       (fixed_env True (StreamIter []) 201 (PDict [(''auth'', PBool True)]))
       (Some ''http://0.0.0.0:9997'') (Some ''m'') (Some ''k'') []
     = Inl (KeyError ''detail'')"
proof -
  have "check_cluster_authenticated
          (fixed_env True (StreamIter []) 201 (PDict [(''auth'', PBool True)]))
          ''http://0.0.0.0:9997'' = Inl (KeyError ''detail'')"
    by (simp add: check_cluster_authenticated_def fixed_env_def)
  then show ?thesis
    using init_of_check_Inl [OF import_fixed_env] by simp
qed

text \<open>
  C6, amended. For either adapter, when the client constructors succeed: after a probe
  answered with status 404 the adapter is built with no \<^verbatim>\<open>Authorization\<close> header,
  whatever the credential; after a probe answered with status 200 and
  \<^verbatim>\<open>{"auth": true}\<close>, with the credential \<open>k\<close> supplied, it is built with the header
  \<^verbatim>\<open>Bearer k\<close>; after a probe answered with status 200 and \<^verbatim>\<open>{"auth": false}\<close> it is
  built with no header, whatever the credential.
\<close>

theorem credential_header_follows_probe:
  assumes probe: "requests_get E (url @ ''/v1/cluster/auth'') = Inr response"
    and lib: "import_clients E = Inr L"
    and sync: "RESTfulClient L url api_key = Inr c"
    and async: "make_async_client L url api_key = Inr ac"
  shows "(status_code response = 404
          \<longrightarrow> (\<exists>a. XinferenceEmbeddings_init E (Some url) (Some uid) api_key = Inr a
                   \<and> emb_headers a = [])
              \<and> (\<exists>b. Xinference_init E (Some url) (Some uid) api_key kwargs = Inr b
                   \<and> llm_headers b = []))
       \<and> (status_code response = 200 \<and> json response = Inr (PDict d)
            \<and> map_of d ''auth'' = Some (PBool True) \<and> api_key = Some k
          \<longrightarrow> (\<exists>a. XinferenceEmbeddings_init E (Some url) (Some uid) api_key = Inr a
                   \<and> emb_headers a = [(''Authorization'', ''Bearer '' @ k)])
              \<and> (\<exists>b. Xinference_init E (Some url) (Some uid) api_key kwargs = Inr b
                   \<and> llm_headers b = [(''Authorization'', ''Bearer '' @ k)]))
       \<and> (status_code response = 200 \<and> json response = Inr (PDict d)
            \<and> map_of d ''auth'' = Some (PBool False)
          \<longrightarrow> (\<exists>a. XinferenceEmbeddings_init E (Some url) (Some uid) api_key = Inr a
                   \<and> emb_headers a = [])
              \<and> (\<exists>b. Xinference_init E (Some url) (Some uid) api_key kwargs = Inr b
                   \<and> llm_headers b = []))"
proof -
  have built: "(\<exists>a. XinferenceEmbeddings_init E (Some url) (Some uid) api_key = Inr a
                   \<and> emb_headers a = auth_headers api_key authed)
              \<and> (\<exists>b. Xinference_init E (Some url) (Some uid) api_key kwargs = Inr b
                   \<and> llm_headers b = auth_headers api_key authed)"
    if "check_cluster_authenticated E url = Inr authed" for authed
    using init_of_check_Inr [OF lib that sync async, of uid kwargs] by simp
  have auth: "check_cluster_authenticated E url = Inr v"
    if "status_code response = 200 \<and> json response = Inr (PDict d)
        \<and> map_of d ''auth'' = Some (PBool v)" for v
    using check_200 [OF probe, of d "PBool v"] that by simp
  show ?thesis
  proof (intro conjI impI)
    assume "status_code response = 404"
    then have "check_cluster_authenticated E url = Inr False"
      by (rule check_404 [OF probe])
    from built [OF this]
    show "\<exists>a. XinferenceEmbeddings_init E (Some url) (Some uid) api_key = Inr a
               \<and> emb_headers a = []"
      and "\<exists>b. Xinference_init E (Some url) (Some uid) api_key kwargs = Inr b
               \<and> llm_headers b = []"
      by (simp_all add: auth_headers_def split: option.splits)
  next
    assume a: "status_code response = 200 \<and> json response = Inr (PDict d)
        \<and> map_of d ''auth'' = Some (PBool True) \<and> api_key = Some k"
    then have "check_cluster_authenticated E url = Inr True"
      using auth [of True] by simp
    from built [OF this] a
    show "\<exists>a. XinferenceEmbeddings_init E (Some url) (Some uid) api_key = Inr a
               \<and> emb_headers a = [(''Authorization'', ''Bearer '' @ k)]"
      and "\<exists>b. Xinference_init E (Some url) (Some uid) api_key kwargs = Inr b
               \<and> llm_headers b = [(''Authorization'', ''Bearer '' @ k)]"
      by (simp_all add: auth_headers_def)
  next
    assume "status_code response = 200 \<and> json response = Inr (PDict d)
        \<and> map_of d ''auth'' = Some (PBool False)"
    then have "check_cluster_authenticated E url = Inr False"
      using auth [of False] by simp
    from built [OF this]
    show "\<exists>a. XinferenceEmbeddings_init E (Some url) (Some uid) api_key = Inr a
               \<and> emb_headers a = []"
      and "\<exists>b. Xinference_init E (Some url) (Some uid) api_key kwargs = Inr b
               \<and> llm_headers b = []"
      by (simp_all add: auth_headers_def split: option.splits)
  qed
qed

theorem credential_header_follows_probe_witness:
  "(\<exists>a b. XinferenceEmbeddings_init (fixed_env True (StreamIter []) 404 PNone)
             (Some ''u'') (Some ''m'') (Some ''k'') = Inr a
          \<and> Xinference_init (fixed_env True (StreamIter []) 404 PNone)
             (Some ''u'') (Some ''m'') (Some ''k'') [] = Inr b
          \<and> emb_headers a = [] \<and> llm_headers b = [])
   \<and> (\<exists>a b. XinferenceEmbeddings_init
             (fixed_env True (StreamIter []) 200 (PDict [(''auth'', PBool True)]))
             (Some ''u'') (Some ''m'') (Some ''k'') = Inr a
          \<and> Xinference_init
             (fixed_env True (StreamIter []) 200 (PDict [(''auth'', PBool True)]))
             (Some ''u'') (Some ''m'') (Some ''k'') [] = Inr b
          \<and> emb_headers a = [(''Authorization'', ''Bearer k'')]
          \<and> llm_headers b = [(''Authorization'', ''Bearer k'')])
   \<and> (\<exists>a b. XinferenceEmbeddings_init
             (fixed_env True (StreamIter []) 200 (PDict [(''auth'', PBool False)]))
             (Some ''u'') (Some ''m'') (Some ''k'') = Inr a
          \<and> Xinference_init
             (fixed_env True (StreamIter []) 200 (PDict [(''auth'', PBool False)]))
             (Some ''u'') (Some ''m'') (Some ''k'') [] = Inr b
          \<and> emb_headers a = [] \<and> llm_headers b = [])"
proof -
  have p: "requests_get (fixed_env True (StreamIter []) status body)
             (''u'' @ ''/v1/cluster/auth'') = Inr \<lparr> status_code = status, json = Inr body \<rparr>"
    for status body
    by (rule probe_fixed_env)
  note t = credential_header_follows_probe [OF _ import_fixed_env RESTfulClient_fixed_lib
      make_async_fixed_lib, where uid = "''m''" and kwargs = "[]" and url = "''u''"]
  show ?thesis
    using t [OF p [of 404 PNone], where api_key = "Some ''k''"]
      t [OF p [of 200 "PDict [(''auth'', PBool True)]"],
          where api_key = "Some ''k''" and d = "[(''auth'', PBool True)]" and k = "''k''"]
      t [OF p [of 200 "PDict [(''auth'', PBool False)]"],
          where api_key = "Some ''k''" and d = "[(''auth'', PBool False)]"]
    by (simp del: ex_simps) blast
qed

text \<open>
  C5, as stated, fails. A probe answered with status 201 and the body \<^verbatim>\<open>{"auth": false}\<close>
  is a success by its status, yet construction raises; and the exception is the
  \<^verbatim>\<open>KeyError\<close> of the missing \<^verbatim>\<open>detail\<close> field, not an error that carries a detail.
\<close>

theorem success_201_raises:
  "XinferenceEmbeddings_init
       (fixed_env True (StreamIter []) 201 (PDict [(''auth'', PBool False)]))
       (Some ''http://0.0.0.0:9997'') (Some ''m'') None
     = Inl (KeyError ''detail'')
   \<and> Xinference_init
       (fixed_env True (StreamIter []) 201 (PDict [(''auth'', PBool False)]))
       (Some ''http://0.0.0.0:9997'') (Some ''m'') None []
     = Inl (KeyError ''detail'')"
proof -
  have "check_cluster_authenticated
          (fixed_env True (StreamIter []) 201 (PDict [(''auth'', PBool False)]))
          ''http://0.0.0.0:9997'' = Inl (KeyError ''detail'')"
    by (simp add: check_cluster_authenticated_def fixed_env_def)
  then show ?thesis
    using init_of_check_Inl [OF import_fixed_env] by simp
qed

text \<open>
  C5, amended. For a probe answered with a status that is neither 404 nor 200,
  construction of either adapter fails; when the JSON body is a mapping with a
  \<^verbatim>\<open>detail\<close> field, it fails with the \<^verbatim>\<open>RuntimeError\<close> whose message ends with that
  detail. A probe answered with 404 does not raise and gives \<open>False\<close>; a probe answered
  with 200 and a JSON mapping with an \<^verbatim>\<open>auth\<close> field does not raise and gives the truth
  value of that field; in both cases construction completes when the two client
  constructors do.
\<close>

theorem probe_outcomes:
  assumes probe: "requests_get E (url @ ''/v1/cluster/auth'') = Inr response"
  shows "(status_code response \<noteq> 404 \<and> status_code response \<noteq> 200
            \<longrightarrow> isl (XinferenceEmbeddings_init E (Some url) uid key)
                \<and> isl (Xinference_init E (Some url) uid key kw))
       \<and> (status_code response \<noteq> 404 \<and> status_code response \<noteq> 200
            \<and> import_clients E = Inr L \<and> uid = Some m
            \<and> json response = Inr (PDict d) \<and> map_of d ''detail'' = Some detail
            \<longrightarrow> XinferenceEmbeddings_init E (Some url) uid key
                  = Inl (RuntimeError (''Failed to get cluster information, detail: ''
                                       @ format_value E detail))
                \<and> Xinference_init E (Some url) uid key kw
                  = Inl (RuntimeError (''Failed to get cluster information, detail: ''
                                       @ format_value E detail)))
       \<and> (status_code response = 404
            \<longrightarrow> check_cluster_authenticated E url = Inr False)
       \<and> (status_code response = 200
            \<and> json response = Inr (PDict d) \<and> map_of d ''auth'' = Some auth
            \<longrightarrow> check_cluster_authenticated E url = Inr (truthy auth))
       \<and> ((status_code response = 404
             \<or> status_code response = 200
                \<and> json response = Inr (PDict d) \<and> map_of d ''auth'' = Some auth)
            \<and> import_clients E = Inr L \<and> uid = Some m
            \<and> RESTfulClient L url key = Inr c \<and> make_async_client L url key = Inr ac
            \<longrightarrow> \<not> isl (XinferenceEmbeddings_init E (Some url) uid key)
                \<and> \<not> isl (Xinference_init E (Some url) uid key kw))"
proof (intro conjI impI)
  assume "status_code response \<noteq> 404 \<and> status_code response \<noteq> 200"
  then have "isl (check_cluster_authenticated E url)"
    using check_other [OF probe] by simp
  then show "isl (XinferenceEmbeddings_init E (Some url) uid key)"
    and "isl (Xinference_init E (Some url) uid key kw)"
    using init_isl_of_check by blast+
next
  assume a: "status_code response \<noteq> 404 \<and> status_code response \<noteq> 200
      \<and> import_clients E = Inr L \<and> uid = Some m
      \<and> json response = Inr (PDict d) \<and> map_of d ''detail'' = Some detail"
  then have "check_cluster_authenticated E url
      = Inl (RuntimeError (''Failed to get cluster information, detail: ''
                           @ format_value E detail))"
    using check_other_detail [OF probe] by simp
  with a show "XinferenceEmbeddings_init E (Some url) uid key
                  = Inl (RuntimeError (''Failed to get cluster information, detail: ''
                                       @ format_value E detail))"
    and "Xinference_init E (Some url) uid key kw
                  = Inl (RuntimeError (''Failed to get cluster information, detail: ''
                                       @ format_value E detail))"
    using init_of_check_Inl by blast+
next
  assume "status_code response = 404"
  then show "check_cluster_authenticated E url = Inr False"
    by (rule check_404 [OF probe])
next
  assume "status_code response = 200
            \<and> json response = Inr (PDict d) \<and> map_of d ''auth'' = Some auth"
  then show "check_cluster_authenticated E url = Inr (truthy auth)"
    using check_200 [OF probe] by simp
next
  assume a: "(status_code response = 404
             \<or> status_code response = 200
                \<and> json response = Inr (PDict d) \<and> map_of d ''auth'' = Some auth)
            \<and> import_clients E = Inr L \<and> uid = Some m
            \<and> RESTfulClient L url key = Inr c \<and> make_async_client L url key = Inr ac"
  then obtain authed where "check_cluster_authenticated E url = Inr authed"
    using check_404 [OF probe] check_200 [OF probe] by blast
  with a show "\<not> isl (XinferenceEmbeddings_init E (Some url) uid key)"
    and "\<not> isl (Xinference_init E (Some url) uid key kw)"
    using init_of_check_Inr [of E L url authed key c ac m kw] by simp_all
qed

theorem probe_outcomes_witness:
  "isl (XinferenceEmbeddings_init
          (fixed_env True (StreamIter []) 500 (PDict [(''detail'', PStr ''boom'')]))
          (Some ''u'') (Some ''m'') None)
   \<and> XinferenceEmbeddings_init
          (fixed_env True (StreamIter []) 500 (PDict [(''detail'', PStr ''boom'')]))
          (Some ''u'') (Some ''m'') None
       = Inl (RuntimeError ''Failed to get cluster information, detail: boom'')
   \<and> Xinference_init
          (fixed_env True (StreamIter []) 500 (PDict [(''detail'', PStr ''boom'')]))
          (Some ''u'') (Some ''m'') None []
       = Inl (RuntimeError ''Failed to get cluster information, detail: boom'')
   \<and> check_cluster_authenticated (fixed_env True (StreamIter []) 404 PNone) ''u''
       = Inr False
   \<and> \<not> isl (Xinference_init (fixed_env True (StreamIter []) 404 PNone)
               (Some ''u'') (Some ''m'') None [])
   \<and> check_cluster_authenticated
         (fixed_env True (StreamIter []) 200 (PDict [(''auth'', PBool True)])) ''u''
       = Inr True
   \<and> \<not> isl (XinferenceEmbeddings_init
               (fixed_env True (StreamIter []) 200 (PDict [(''auth'', PBool True)]))
               (Some ''u'') (Some ''m'') None)"
proof -
  have p: "requests_get (fixed_env True (StreamIter []) status body)
             (''u'' @ ''/v1/cluster/auth'') = Inr \<lparr> status_code = status, json = Inr body \<rparr>"
    for status body
    by (rule probe_fixed_env)
  show ?thesis
    using
      probe_outcomes [OF p, where uid = "Some ''m''" and key = None and kw = "[]"
          and L = "fixed_lib True (StreamIter [])" and m = "''m''"
          and d = "[(''detail'', PStr ''boom'')]" and detail = "PStr ''boom''"
          and status1 = 500 and body1 = "PDict [(''detail'', PStr ''boom'')]"]
      probe_outcomes [OF p, where uid = "Some ''m''" and key = None and kw = "[]"
          and L = "fixed_lib True (StreamIter [])" and m = "''m''"
          and c = "fixed_client (StreamIter [])"
          and ac = "Some (fixed_client (StreamIter []))"
          and status1 = 404 and body1 = PNone]
      probe_outcomes [OF p, where uid = "Some ''m''" and key = None and kw = "[]"
          and L = "fixed_lib True (StreamIter [])" and m = "''m''"
          and d = "[(''auth'', PBool True)]" and auth = "PBool True"
          and c = "fixed_client (StreamIter [])"
          and ac = "Some (fixed_client (StreamIter []))"
          and status1 = 200 and body1 = "PDict [(''auth'', PBool True)]"]
    by (simp add: import_fixed_env RESTfulClient_fixed_lib make_async_fixed_lib)
qed

section \<open>Absent non-blocking client\<close>

lemma acall_uninitialized:
  "llm_async_client self = None
   \<Longrightarrow> Xinference_acall self h prompt stop run_manager kwargs
       = \<lparr> calls = h, notified = [],
           result = Inl (ValueError ''Client is not initialized!'') \<rparr>"
  by (simp add: Xinference_acall_def call_via_def)

lemma astream_uninitialized:
  "llm_async_client self = None \<Longrightarrow> kwargs_generate_config kwargs = Inr gc
   \<Longrightarrow> Xinference_astream self h prompt stop run_manager kwargs
       = (h, Raises (ValueError ''Client is not initialized!''))"
  by (simp add: Xinference_astream_def stream_via_def)

text \<open>
  C3. Where the non-blocking client failed to start with \<^verbatim>\<open>RuntimeError\<close>, both
  constructors store \<^verbatim>\<open>None\<close>. The completion adapter then raises
  \<^verbatim>\<open>ValueError("Client is not initialized!")\<close> from \<^verbatim>\<open>_acall\<close> and \<^verbatim>\<open>_astream\<close>; the
  embedding adapter has no such test, and \<^verbatim>\<open>aembed_documents\<close> and \<^verbatim>\<open>aembed_query\<close>
  raise the \<^verbatim>\<open>AttributeError\<close> of \<^verbatim>\<open>None.get_model\<close> instead.
\<close>

theorem embeddings_async_absent_AttributeError:
  "(case XinferenceEmbeddings_init (fixed_env False (StreamIter []) 404 PNone)
           (Some ''http://0.0.0.0:9997'') (Some ''m'') None of
      Inl e \<Rightarrow> False
    | Inr self \<Rightarrow>
        emb_async_client self = None
        \<and> aembed_documents (fixed_env False (StreamIter []) 404 PNone) self [] [''a'']
            = ([], Inl (AttributeError ''NoneType object has no attribute get_model''))
        \<and> aembed_query (fixed_env False (StreamIter []) 404 PNone) self [] ''a''
            = ([], Inl (AttributeError ''NoneType object has no attribute get_model'')))
   \<and> (case Xinference_init (fixed_env False (StreamIter []) 404 PNone)
           (Some ''http://0.0.0.0:9997'') (Some ''m'') None [] of
      Inl e \<Rightarrow> False
    | Inr self \<Rightarrow>
        llm_async_client self = None
        \<and> result (Xinference_acall self [] ''hi'' None False [])
            = Inl (ValueError ''Client is not initialized!'')
        \<and> Xinference_astream self [] ''hi'' None False []
            = ([], Raises (ValueError ''Client is not initialized!'')))"
proof -
  have c: "check_cluster_authenticated (fixed_env False (StreamIter []) 404 PNone)
             ''http://0.0.0.0:9997'' = Inr False"
    by (simp add: check_cluster_authenticated_def fixed_env_def)
  have k: "kwargs_generate_config [] = Inr []"
    by (simp add: kwargs_generate_config_def dict_get_def)
  show ?thesis
    using init_of_check_Inr [OF import_fixed_env c RESTfulClient_fixed_lib
        make_async_fixed_lib, where uid = "''m''" and kw = "[]"]
    by (simp add: aembed_documents_def aembed_query_def acall_uninitialized
          astream_uninitialized [OF _ k])
qed

section \<open>Embeddings\<close>












section \<open>Streaming\<close>

lemma stream_via_streams_back:
  assumes "kwargs_generate_config kwargs = Inr gc"
    and "streams_back client self h prompt (stream_options self stop gc) fragments"
  shows "stream_via client self h prompt stop run_manager kwargs
           = (h @ [GetModel (llm_model_uid self),
                   Generate prompt (stream_options self stop gc)],
              stream_loop run_manager fragments)"
  using assms
  by (auto simp: stream_via_def streams_back_def split: option.splits sum.splits)

lemma truthy_get_nonempty: "truthy (dict_get d k PNone) \<Longrightarrow> d \<noteq> []"
  by (auto simp: dict_get_def)




lemma snd_combine_Yield_PStr:
  "snd (combine acc (Yield ns (PStr s) g)) = snd (combine (acc @ s) g)"
  by (simp add: case_prod_beta)











lemma falsy_choices_chunk:
  "d \<noteq> [] \<Longrightarrow> \<not> truthy (dict_get d ''choices'' (PList []))
   \<Longrightarrow> stream_response_to_generation_chunk (PDict d)
       = Inr \<lparr> chunk_text = [], generation_info = None \<rparr>"
  by (simp add: stream_response_to_generation_chunk_def)








lemma kwargs_demo:
  "kwargs_generate_config [(''generate_config'', PDict gc)] = Inr gc"
  "kwargs_generate_config [] = Inr []"
  by (simp_all add: kwargs_generate_config_def dict_get_def)

lemma options_demo:
  "call_options (demo_llm [] r) None [(''stream'', PBool True)] = [(''stream'', PBool True)]"
  "stream_options (demo_llm [] r) None [(''stream'', PBool True)] = [(''stream'', PBool True)]"
  "stream_options (demo_llm [] r) None [] = [(''stream'', PBool True)]"
  by (simp_all add: call_options_def stream_options_def force_stream_def dict_merge_def
        demo_llm_def dict_get_def)

lemma streams_back_demo:
  "streams_back (llm_client (demo_llm kw (StreamIter fs))) (demo_llm kw (StreamIter fs))
     h prompt options fs"
  "streams_back (llm_async_client (demo_llm kw (StreamIter fs))) (demo_llm kw (StreamIter fs))
     h prompt options fs"
  by (simp_all add: streams_back_def demo_llm_def fixed_client_def fixed_model_def)


section \<open>Options\<close>

lemma map_of_with_stop:
  "map_of (with_stop stop cfg) k
     = (if k = ''stop'' \<and> stop \<noteq> None \<and> stop \<noteq> Some []
        then map_option (\<lambda>s. PList (map PStr s)) stop
        else map_of cfg k)"
  by (cases "(stop, cfg)" rule: with_stop.cases) (auto simp: map_of_dict_set)

lemma map_of_call_options:
  "distinct (map fst gc)
   \<Longrightarrow> map_of (call_options self stop gc) k
       = (if k = ''stop'' \<and> stop \<noteq> None \<and> stop \<noteq> Some []
          then map_option (\<lambda>s. PList (map PStr s)) stop
          else case map_of gc k of Some v \<Rightarrow> Some v | None \<Rightarrow> map_of (model_kwargs self) k)"
  by (auto simp: call_options_def map_of_with_stop map_of_dict_merge map_add_def
        split: option.splits)

lemma force_stream_eq:
  "force_stream cfg
     = (if truthy (dict_get cfg ''stream'' (PBool False)) then cfg
        else dict_set cfg ''stream'' (PBool True))"
proof (cases "''stream'' \<in> fst ` set cfg")
  case True
  then show ?thesis by (simp add: force_stream_def)
next
  case False
  then have "map_of cfg ''stream'' = None"
    by (simp add: map_of_eq_None_iff)
  with False show ?thesis by (simp add: force_stream_def dict_get_def)
qed

lemma map_of_force_stream:
  "map_of (force_stream cfg) k
     = (if k = ''stream'' \<and> \<not> truthy (dict_get cfg ''stream'' (PBool False))
        then Some (PBool True) else map_of cfg k)"
  by (simp add: force_stream_eq map_of_dict_set)

lemma stream_options_eq: "stream_options self stop gc = force_stream (call_options self stop gc)"
  by (simp add: stream_options_def call_options_def)

lemma truthy_stream_options:
  "truthy (dict_get (stream_options self stop gc) ''stream'' PNone)"
  by (simp add: stream_options_eq dict_get_def map_of_force_stream split: option.splits)

lemma call_via_calls:
  assumes "kwargs_generate_config kwargs = Inr gc"
    and "client = Some c" and "get_model c h (llm_model_uid self) = Inr model"
  shows "calls (call_via client self h prompt stop run_manager kwargs)
           = h @ [GetModel (llm_model_uid self), Generate prompt (call_options self stop gc)]"
  using assms
  by (simp add: call_via_def stream_generate_def Let_def split: prod.splits)

lemma stream_via_calls:
  assumes "kwargs_generate_config kwargs = Inr gc"
    and "client = Some c" and "get_model c h (llm_model_uid self) = Inr model"
  shows "fst (stream_via client self h prompt stop run_manager kwargs)
           = h @ [GetModel (llm_model_uid self), Generate prompt (stream_options self stop gc)]"
  using assms
  by (simp add: stream_via_def Let_def)

text \<open>
  C4, as stated, fails. With no defaults and the call-time options
  \<^verbatim>\<open>{"stream": False}\<close>, the defaults overridden by the call-time options are
  \<^verbatim>\<open>{"stream": False}\<close>; \<^verbatim>\<open>_stream\<close> and \<^verbatim>\<open>_astream\<close> pass \<^verbatim>\<open>{"stream": True}\<close> to
  the remote call: the call-time value does not win.
\<close>

theorem stream_overrides_call_time_flag:
  "fst (Xinference_stream (demo_llm [] (StreamIter [])) [] ''hi'' None False
         [(''generate_config'', PDict [(''stream'', PBool False)])])
     = [GetModel ''m'', Generate ''hi'' [(''stream'', PBool True)]]
   \<and> fst (Xinference_astream (demo_llm [] (StreamIter [])) [] ''hi'' None False
         [(''generate_config'', PDict [(''stream'', PBool False)])])
     = [GetModel ''m'', Generate ''hi'' [(''stream'', PBool True)]]"
  by (simp add: Xinference_stream_def Xinference_astream_def stream_via_def
        kwargs_generate_config_def dict_get_def stream_options_def force_stream_def
        dict_merge_def demo_llm_def fixed_client_def fixed_model_def)

lemma call_via_result:
  assumes "kwargs_generate_config kwargs = Inr gc"
    and "client = Some c" and "get_model c h (llm_model_uid self) = Inr model"
  shows "result (call_via client self h prompt stop run_manager kwargs)
           = (case generate model (h @ [GetModel (llm_model_uid self)]) prompt
                     (call_options self stop gc) of
                Inl e \<Rightarrow> Inl e
              | Inr r \<Rightarrow>
                  if truthy (dict_get (call_options self stop gc) ''stream'' PNone)
                  then (case iterate_response r of
                          Inl e \<Rightarrow> Inl e
                        | Inr fragments \<Rightarrow>
                            map_sum id PStr
                              (snd (combine [] (stream_generate_loop run_manager fragments))))
                  else completion_text r)"
proof (cases "truthy (dict_get (call_options self stop gc) ''stream'' PNone)")
  case True
  with assms truthy_get_nonempty [OF True] show ?thesis
    by (auto simp: call_via_def stream_generate_def split: sum.splits prod.splits)
next
  case False
  with assms show ?thesis
    by (auto simp: call_via_def split: sum.splits)
qed

lemma stream_via_result:
  assumes "kwargs_generate_config kwargs = Inr gc"
    and "client = Some c" and "get_model c h (llm_model_uid self) = Inr model"
  shows "snd (stream_via client self h prompt stop run_manager kwargs)
           = (case generate model (h @ [GetModel (llm_model_uid self)]) prompt
                     (stream_options self stop gc) of
                Inl e \<Rightarrow> Raises e
              | Inr r \<Rightarrow>
                  (case iterate_response r of
                     Inl e \<Rightarrow> Raises e
                   | Inr fragments \<Rightarrow> stream_loop run_manager fragments))"
  using assms by (simp add: stream_via_def Let_def)

text \<open>
  C4, amended. Once the client has handed out the model, each of the four operations
  makes one \<^verbatim>\<open>generate\<close> call, \<^verbatim>\<open>_call\<close> and \<^verbatim>\<open>_acall\<close> with \<open>call_options\<close>,
  \<^verbatim>\<open>_stream\<close> and \<^verbatim>\<open>_astream\<close> with \<open>stream_options\<close>, and what it returns, yields or
  raises is computed from the answer of the model to exactly these options. Under every
  key \<open>k\<close>, \<open>call_options\<close> holds the explicit stop list if \<open>k\<close> is \<^verbatim>\<open>"stop"\<close> and a
  non-empty list was passed, else the call-time value if the call-time
  \<^verbatim>\<open>generate_config\<close> has \<open>k\<close>, else the construction-time default. \<open>stream_options\<close>
  holds the same, but for \<^verbatim>\<open>"stream"\<close>, which is \<^verbatim>\<open>True\<close> unless that value is already
  true. The call-time \<^verbatim>\<open>generate_config\<close> is a dict: no key twice.
\<close>

theorem options_passed_to_generate:
  assumes kw: "kwargs_generate_config kwargs = Inr gc"
    and dist: "distinct (map fst gc)"
  shows "(llm_client self = Some c \<and> get_model c h (llm_model_uid self) = Inr model
          \<longrightarrow> calls (Xinference_call self h prompt stop run_manager kwargs)
                = h @ [GetModel (llm_model_uid self),
                       Generate prompt (call_options self stop gc)]
              \<and> result (Xinference_call self h prompt stop run_manager kwargs)
                = (case generate model (h @ [GetModel (llm_model_uid self)]) prompt
                          (call_options self stop gc) of
                     Inl e \<Rightarrow> Inl e
                   | Inr r \<Rightarrow>
                       if truthy (dict_get (call_options self stop gc) ''stream'' PNone)
                       then (case iterate_response r of
                               Inl e \<Rightarrow> Inl e
                             | Inr fragments \<Rightarrow>
                                 map_sum id PStr
                                   (snd (combine []
                                           (stream_generate_loop run_manager fragments))))
                       else completion_text r)
              \<and> Xinference_stream self h prompt stop run_manager kwargs
                = (h @ [GetModel (llm_model_uid self),
                        Generate prompt (stream_options self stop gc)],
                   case generate model (h @ [GetModel (llm_model_uid self)]) prompt
                          (stream_options self stop gc) of
                     Inl e \<Rightarrow> Raises e
                   | Inr r \<Rightarrow>
                       (case iterate_response r of
                          Inl e \<Rightarrow> Raises e
                        | Inr fragments \<Rightarrow> stream_loop run_manager fragments)))
       \<and> (llm_async_client self = Some c \<and> get_model c h (llm_model_uid self) = Inr model
          \<longrightarrow> calls (Xinference_acall self h prompt stop run_manager kwargs)
                = h @ [GetModel (llm_model_uid self),
                       Generate prompt (call_options self stop gc)]
              \<and> result (Xinference_acall self h prompt stop run_manager kwargs)
                = (case generate model (h @ [GetModel (llm_model_uid self)]) prompt
                          (call_options self stop gc) of
                     Inl e \<Rightarrow> Inl e
                   | Inr r \<Rightarrow>
                       if truthy (dict_get (call_options self stop gc) ''stream'' PNone)
                       then (case iterate_response r of
                               Inl e \<Rightarrow> Inl e
                             | Inr fragments \<Rightarrow>
                                 map_sum id PStr
                                   (snd (combine []
                                           (stream_generate_loop run_manager fragments))))
                       else completion_text r)
              \<and> Xinference_astream self h prompt stop run_manager kwargs
                = (h @ [GetModel (llm_model_uid self),
                        Generate prompt (stream_options self stop gc)],
                   case generate model (h @ [GetModel (llm_model_uid self)]) prompt
                          (stream_options self stop gc) of
                     Inl e \<Rightarrow> Raises e
                   | Inr r \<Rightarrow>
                       (case iterate_response r of
                          Inl e \<Rightarrow> Raises e
                        | Inr fragments \<Rightarrow> stream_loop run_manager fragments)))
       \<and> map_of (call_options self stop gc) k
           = (if k = ''stop'' \<and> stop \<noteq> None \<and> stop \<noteq> Some []
              then map_option (\<lambda>s. PList (map PStr s)) stop
              else case map_of gc k of
                     Some v \<Rightarrow> Some v
                   | None \<Rightarrow> map_of (model_kwargs self) k)
       \<and> map_of (stream_options self stop gc) k
           = (if k = ''stream''
                 \<and> \<not> truthy (dict_get (call_options self stop gc) ''stream'' (PBool False))
              then Some (PBool True)
              else map_of (call_options self stop gc) k)"
proof -
  have plain: "calls (call_via client self h prompt stop run_manager kwargs)
                = h @ [GetModel (llm_model_uid self),
                       Generate prompt (call_options self stop gc)]
              \<and> result (call_via client self h prompt stop run_manager kwargs)
                = (case generate model (h @ [GetModel (llm_model_uid self)]) prompt
                          (call_options self stop gc) of
                     Inl e \<Rightarrow> Inl e
                   | Inr r \<Rightarrow>
                       if truthy (dict_get (call_options self stop gc) ''stream'' PNone)
                       then (case iterate_response r of
                               Inl e \<Rightarrow> Inl e
                             | Inr fragments \<Rightarrow>
                                 map_sum id PStr
                                   (snd (combine []
                                           (stream_generate_loop run_manager fragments))))
                       else completion_text r)"
    if "client = Some c \<and> get_model c h (llm_model_uid self) = Inr model" for client
    using that call_via_calls [OF kw, of client c h self model prompt stop run_manager]
      call_via_result [OF kw, of client c h self model prompt stop run_manager]
    by blast
  have chunked: "stream_via client self h prompt stop run_manager kwargs
                = (h @ [GetModel (llm_model_uid self),
                        Generate prompt (stream_options self stop gc)],
                   case generate model (h @ [GetModel (llm_model_uid self)]) prompt
                          (stream_options self stop gc) of
                     Inl e \<Rightarrow> Raises e
                   | Inr r \<Rightarrow>
                       (case iterate_response r of
                          Inl e \<Rightarrow> Raises e
                        | Inr fragments \<Rightarrow> stream_loop run_manager fragments))"
    if "client = Some c \<and> get_model c h (llm_model_uid self) = Inr model" for client
    using that stream_via_calls [OF kw, of client c h self model prompt stop run_manager]
      stream_via_result [OF kw, of client c h self model prompt stop run_manager]
    by (simp add: prod_eq_iff)
  show ?thesis
    unfolding Xinference_call_def Xinference_acall_def Xinference_stream_def
      Xinference_astream_def
    using plain chunked map_of_call_options [OF dist, of self stop k]
      map_of_force_stream [of "call_options self stop gc" k]
    by (simp add: stream_options_eq)
qed

theorem options_passed_to_generate_witness:
  "calls (Xinference_call
            (demo_llm [(''temperature'', PInt 1), (''stop'', PList [PStr ''x''])]
               (Completion (PDict [(''choices'', PList [PDict [(''text'', PStr ''Paris'')]])])))
            [] ''hi'' (Some [''END'']) False
            [(''generate_config'',
              PDict [(''temperature'', PInt 2), (''stop'', PList [PStr ''y''])])])
     = [GetModel ''m'',
        Generate ''hi'' [(''temperature'', PInt 2), (''stop'', PList [PStr ''END''])]]
   \<and> result (Xinference_call
            (demo_llm [(''temperature'', PInt 1), (''stop'', PList [PStr ''x''])]
               (Completion (PDict [(''choices'', PList [PDict [(''text'', PStr ''Paris'')]])])))
            [] ''hi'' (Some [''END'']) False
            [(''generate_config'',
              PDict [(''temperature'', PInt 2), (''stop'', PList [PStr ''y''])])])
     = Inr (PStr ''Paris'')
   \<and> fst (Xinference_astream
            (demo_llm [(''temperature'', PInt 1), (''stop'', PList [PStr ''x''])]
               (Completion (PDict [(''choices'', PList [PDict [(''text'', PStr ''Paris'')]])])))
            [] ''hi'' (Some [''END'']) False
            [(''generate_config'',
              PDict [(''temperature'', PInt 2), (''stop'', PList [PStr ''y''])])])
     = [GetModel ''m'',
        Generate ''hi'' [(''temperature'', PInt 2), (''stop'', PList [PStr ''END'']),
                         (''stream'', PBool True)]]
   \<and> map_of (call_options
            (demo_llm [(''temperature'', PInt 1), (''stop'', PList [PStr ''x''])]
               (Completion (PDict [(''choices'', PList [PDict [(''text'', PStr ''Paris'')]])])))
            (Some [''END'']) [(''temperature'', PInt 2), (''stop'', PList [PStr ''y''])])
         ''temperature'' = Some (PInt 2)
   \<and> map_of (call_options
            (demo_llm [(''temperature'', PInt 1), (''stop'', PList [PStr ''x''])]
               (Completion (PDict [(''choices'', PList [PDict [(''text'', PStr ''Paris'')]])])))
            (Some [''END'']) [(''temperature'', PInt 2), (''stop'', PList [PStr ''y''])])
         ''stop'' = Some (PList [PStr ''END''])
   \<and> map_of (stream_options
            (demo_llm [(''temperature'', PInt 1), (''stop'', PList [PStr ''x''])]
               (Completion (PDict [(''choices'', PList [PDict [(''text'', PStr ''Paris'')]])])))
            (Some [''END'']) [(''temperature'', PInt 2), (''stop'', PList [PStr ''y''])])
         ''stream'' = Some (PBool True)"
proof -
  let ?r = "Completion (PDict [(''choices'', PList [PDict [(''text'', PStr ''Paris'')]])])"
  let ?self = "demo_llm [(''temperature'', PInt 1), (''stop'', PList [PStr ''x''])] ?r"
  let ?gc = "[(''temperature'', PInt 2), (''stop'', PList [PStr ''y''])]"
  have d: "distinct (map fst ?gc)" by simp
  have c: "llm_client ?self = Some (fixed_client ?r)"
      "llm_async_client ?self = Some (fixed_client ?r)"
      "get_model (fixed_client ?r) [] ''m'' = Inr (fixed_model ?r)"
      "llm_model_uid ?self = ''m''"
    by (simp_all add: demo_llm_def fixed_client_def)
  have g: "generate (fixed_model ?r) hh pp oo = Inr ?r" for hh pp oo
    by (simp add: fixed_model_def)
  have o: "call_options ?self (Some [''END'']) ?gc
             = [(''temperature'', PInt 2), (''stop'', PList [PStr ''END''])]"
      "stream_options ?self (Some [''END'']) ?gc
             = [(''temperature'', PInt 2), (''stop'', PList [PStr ''END'']),
                (''stream'', PBool True)]"
    by (simp_all add: call_options_def stream_options_def force_stream_def dict_merge_def
          demo_llm_def dict_get_def)
  note t = options_passed_to_generate [OF kwargs_demo(1) d,
      where self = ?self and c = "fixed_client ?r" and h = "[]"
        and model = "fixed_model ?r" and prompt = "''hi''"
        and stop = "Some [''END'']" and run_manager = False]
  from t [where k = "''temperature''"] t [where k = "''stop''"] t [where k = "''stream''"]
  show ?thesis
    by (simp add: o c g dict_get_def)
qed

section \<open>Order of the chunks\<close>

lemma stream_loop_order:
  "map Inr (yielded (stream_loop run_manager fragments))
     = takeWhile (\<lambda>r. \<not> isl r)
         (map stream_response_to_generation_chunk (filter truthy fragments))
   \<and> raised (stream_loop run_manager fragments)
     = map_option projl
         (find isl (map stream_response_to_generation_chunk (filter truthy fragments)))"
  by (induction fragments) (auto split: sum.splits)

lemma stream_via_new_calls:
  "\<exists>new. fst (stream_via client self h prompt stop run_manager kwargs) = h @ new
         \<and> (\<forall>p opts. Generate p opts \<in> set new
                \<longrightarrow> p = prompt \<and> truthy (dict_get opts ''stream'' PNone))"
proof (cases "kwargs_generate_config kwargs")
  case (Inl e)
  then have "fst (stream_via client self h prompt stop run_manager kwargs) = h @ []"
    by (simp add: stream_via_def)
  then show ?thesis by (intro exI [of _ "[]"]) simp
next
  case (Inr gc)
  show ?thesis
  proof (cases client)
    case None
    with Inr have "fst (stream_via client self h prompt stop run_manager kwargs) = h @ []"
      by (simp add: stream_via_def)
    then show ?thesis by (intro exI [of _ "[]"]) simp
  next
    case (Some c)
    show ?thesis
    proof (cases "get_model c h (llm_model_uid self)")
      case (Inl e)
      with Inr Some have "fst (stream_via client self h prompt stop run_manager kwargs)
                            = h @ [GetModel (llm_model_uid self)]"
        by (simp add: stream_via_def)
      then show ?thesis by (intro exI [of _ "[GetModel (llm_model_uid self)]"]) simp
    next
      case (Inr model)
      from stream_via_calls [OF \<open>kwargs_generate_config kwargs = Inr gc\<close> Some Inr]
      have "fst (stream_via client self h prompt stop run_manager kwargs)
              = h @ [GetModel (llm_model_uid self),
                     Generate prompt (stream_options self stop gc)]" .
      then show ?thesis
        by (intro exI [of _ "[GetModel (llm_model_uid self),
                              Generate prompt (stream_options self stop gc)]"])
           (simp add: truthy_stream_options)
    qed
  qed
qed

text \<open>
  C9. Whatever the construction-time defaults, the call-time \<^verbatim>\<open>generate_config\<close> and
  the stop list, the options that \<^verbatim>\<open>_stream\<close> and \<^verbatim>\<open>_astream\<close> build have a true
  \<^verbatim>\<open>stream\<close> entry, and these are the options of the one \<^verbatim>\<open>generate\<close> call they make
  once the client has handed out the model; in no case do they record a \<^verbatim>\<open>generate\<close>
  call whose options lack a true \<^verbatim>\<open>stream\<close>. The chunks they yield are the conversions
  of the fragments received that are true, in the order received, up to the first
  fragment whose conversion raises, and that exception is the one they raise.
\<close>

theorem stream_flag_forced_and_order_kept:
  "truthy (dict_get (stream_options self stop gc) ''stream'' PNone)
   \<and> (kwargs_generate_config kwargs = Inr gc
        \<and> llm_client self = Some c \<and> get_model c h (llm_model_uid self) = Inr model
       \<longrightarrow> fst (Xinference_stream self h prompt stop run_manager kwargs)
             = h @ [GetModel (llm_model_uid self),
                    Generate prompt (stream_options self stop gc)])
   \<and> (kwargs_generate_config kwargs = Inr gc
        \<and> llm_async_client self = Some c \<and> get_model c h (llm_model_uid self) = Inr model
       \<longrightarrow> fst (Xinference_astream self h prompt stop run_manager kwargs)
             = h @ [GetModel (llm_model_uid self),
                    Generate prompt (stream_options self stop gc)])
   \<and> (\<exists>new. fst (Xinference_stream self h prompt stop run_manager kwargs) = h @ new
          \<and> (\<forall>p opts. Generate p opts \<in> set new
                 \<longrightarrow> p = prompt \<and> truthy (dict_get opts ''stream'' PNone)))
   \<and> (\<exists>new. fst (Xinference_astream self h prompt stop run_manager kwargs) = h @ new
          \<and> (\<forall>p opts. Generate p opts \<in> set new
                 \<longrightarrow> p = prompt \<and> truthy (dict_get opts ''stream'' PNone)))
   \<and> (kwargs_generate_config kwargs = Inr gc
        \<and> streams_back (llm_client self) self h prompt (stream_options self stop gc) fragments
       \<longrightarrow> map Inr (yielded (snd (Xinference_stream self h prompt stop run_manager kwargs)))
             = takeWhile (\<lambda>r. \<not> isl r)
                 (map stream_response_to_generation_chunk (filter truthy fragments))
           \<and> raised (snd (Xinference_stream self h prompt stop run_manager kwargs))
             = map_option projl
                 (find isl (map stream_response_to_generation_chunk (filter truthy fragments))))
   \<and> (kwargs_generate_config kwargs = Inr gc
        \<and> streams_back (llm_async_client self) self h prompt (stream_options self stop gc)
             fragments
       \<longrightarrow> map Inr (yielded (snd (Xinference_astream self h prompt stop run_manager kwargs)))
             = takeWhile (\<lambda>r. \<not> isl r)
                 (map stream_response_to_generation_chunk (filter truthy fragments))
           \<and> raised (snd (Xinference_astream self h prompt stop run_manager kwargs))
             = map_option projl
                 (find isl (map stream_response_to_generation_chunk (filter truthy fragments))))"
proof -
  have order: "map Inr (yielded (snd (stream_via client self h prompt stop run_manager kwargs)))
             = takeWhile (\<lambda>r. \<not> isl r)
                 (map stream_response_to_generation_chunk (filter truthy fragments))
           \<and> raised (snd (stream_via client self h prompt stop run_manager kwargs))
             = map_option projl
                 (find isl (map stream_response_to_generation_chunk (filter truthy fragments)))"
    if "kwargs_generate_config kwargs = Inr gc
        \<and> streams_back client self h prompt (stream_options self stop gc) fragments"
    for client
    using that stream_via_streams_back [of kwargs gc client self h prompt stop fragments
        run_manager] stream_loop_order [of run_manager fragments]
    by simp
  have sent: "fst (stream_via client self h prompt stop run_manager kwargs)
             = h @ [GetModel (llm_model_uid self),
                    Generate prompt (stream_options self stop gc)]"
    if "kwargs_generate_config kwargs = Inr gc
        \<and> client = Some c \<and> get_model c h (llm_model_uid self) = Inr model"
    for client
    using that stream_via_calls [of kwargs gc client c h self model prompt stop run_manager]
    by simp
  show ?thesis
    unfolding Xinference_stream_def Xinference_astream_def
    using truthy_stream_options [of self stop gc] order sent
      stream_via_new_calls [of "llm_client self" self h prompt stop run_manager kwargs]
      stream_via_new_calls [of "llm_async_client self" self h prompt stop run_manager kwargs]
    by (intro conjI impI) blast+
qed

theorem stream_flag_forced_and_order_kept_witness:
  "truthy (dict_get (stream_options (demo_llm [] (StreamIter [])) None
                       [(''stream'', PBool False)]) ''stream'' PNone)
   \<and> fst (Xinference_stream
         (demo_llm []
            (StreamIter [PDict [(''choices'', PList [PDict [(''text'', PStr ''a'')]])],
                         PDict [],
                         PDict [(''choices'', PList [PDict [(''text'', PStr ''b'')]])]]))
         [] ''hi'' None False [(''generate_config'', PDict [(''stream'', PBool False)])])
     = [GetModel ''m'', Generate ''hi'' [(''stream'', PBool True)]]
   \<and> fst (Xinference_astream
         (demo_llm []
            (StreamIter [PDict [(''choices'', PList [PDict [(''text'', PStr ''a'')]])],
                         PDict [],
                         PDict [(''choices'', PList [PDict [(''text'', PStr ''b'')]])]]))
         [] ''hi'' None False [])
     = [GetModel ''m'', Generate ''hi'' [(''stream'', PBool True)]]
   \<and> yielded (snd (Xinference_stream
         (demo_llm []
            (StreamIter [PDict [(''choices'', PList [PDict [(''text'', PStr ''a'')]])],
                         PDict [],
                         PDict [(''choices'', PList [PDict [(''text'', PStr ''b'')]])]]))
         [] ''hi'' None False [(''generate_config'', PDict [(''stream'', PBool False)])]))
     = [\<lparr> chunk_text = ''a'',
           generation_info = Some [(''finish_reason'', PNone), (''logprobs'', PNone)] \<rparr>,
        \<lparr> chunk_text = ''b'',
           generation_info = Some [(''finish_reason'', PNone), (''logprobs'', PNone)] \<rparr>]
   \<and> raised (snd (Xinference_astream
         (demo_llm []
            (StreamIter [PDict [(''choices'', PList [PDict [(''text'', PStr ''a'')]])],
                         PDict [],
                         PDict [(''choices'', PList [PDict [(''text'', PStr ''b'')]])]]))
         [] ''hi'' None False []))
     = None"
proof -
  let ?fs = "[PDict [(''choices'', PList [PDict [(''text'', PStr ''a'')]])],
              PDict [],
              PDict [(''choices'', PList [PDict [(''text'', PStr ''b'')]])]]"
  let ?self = "demo_llm [] (StreamIter ?fs)"
  have c: "llm_client ?self = Some (fixed_client (StreamIter ?fs))"
      "llm_async_client ?self = Some (fixed_client (StreamIter ?fs))"
      "get_model (fixed_client (StreamIter ?fs)) [] ''m'' = Inr (fixed_model (StreamIter ?fs))"
      "llm_model_uid ?self = ''m''"
    by (simp_all add: demo_llm_def fixed_client_def)
  have o: "stream_options (demo_llm [] r) None [(''stream'', PBool False)]
             = [(''stream'', PBool True)]" for r
    by (simp add: stream_options_def force_stream_def dict_merge_def demo_llm_def dict_get_def)
  have conv: "map stream_response_to_generation_chunk (filter truthy ?fs)
      = map Inr [\<lparr> chunk_text = ''a'',
           generation_info = Some [(''finish_reason'', PNone), (''logprobs'', PNone)] \<rparr>,
        \<lparr> chunk_text = ''b'',
           generation_info = Some [(''finish_reason'', PNone), (''logprobs'', PNone)] \<rparr>]"
    by (simp add: stream_response_to_generation_chunk_def dict_get_def)
  have sb: "streams_back (llm_client ?self) ?self [] ''hi'' [(''stream'', PBool True)] ?fs"
      "streams_back (llm_async_client ?self) ?self [] ''hi'' [(''stream'', PBool True)] ?fs"
    by (rule streams_back_demo)+
  have o': "stream_options ?self None [] = [(''stream'', PBool True)]"
    by (rule options_demo)
  note t1 = stream_flag_forced_and_order_kept [where self = ?self and stop = None
      and gc = "[(''stream'', PBool False)]" and h = "[]" and prompt = "''hi''"
      and kwargs = "[(''generate_config'', PDict [(''stream'', PBool False)])]"
      and c = "fixed_client (StreamIter ?fs)" and model = "fixed_model (StreamIter ?fs)"
      and run_manager = False and fragments = ?fs, unfolded o c(4)]
  note t2 = stream_flag_forced_and_order_kept [where self = ?self and stop = None
      and gc = "[]" and h = "[]" and prompt = "''hi''" and kwargs = "[]"
      and c = "fixed_client (StreamIter ?fs)" and model = "fixed_model (StreamIter ?fs)"
      and run_manager = False and fragments = ?fs, unfolded o' c(4)]
  have w1: "truthy (dict_get (stream_options (demo_llm [] (StreamIter [])) None
                       [(''stream'', PBool False)]) ''stream'' PNone)"
    by (simp add: o dict_get_def)
  have w2: "fst (Xinference_stream ?self [] ''hi'' None False
                  [(''generate_config'', PDict [(''stream'', PBool False)])])
              = [GetModel ''m'', Generate ''hi'' [(''stream'', PBool True)]]"
    using t1 [THEN conjunct2, THEN conjunct1] kwargs_demo(1) c(1,3) by simp
  have w3: "fst (Xinference_astream ?self [] ''hi'' None False [])
              = [GetModel ''m'', Generate ''hi'' [(''stream'', PBool True)]]"
    using t2 [THEN conjunct2, THEN conjunct2, THEN conjunct1] kwargs_demo(2) c(2,3) by simp
  have "map Inr (yielded (snd (Xinference_stream ?self [] ''hi'' None False
             [(''generate_config'', PDict [(''stream'', PBool False)])])))
      = takeWhile (\<lambda>r. \<not> isl r)
          (map stream_response_to_generation_chunk (filter truthy ?fs))"
    using t1 [THEN conjunct2, THEN conjunct2, THEN conjunct2, THEN conjunct2, THEN conjunct2,
        THEN conjunct1] kwargs_demo(1) sb(1)
    by blast
  then have "map (Inr :: GenerationChunk \<Rightarrow> error + GenerationChunk)
             (yielded (snd (Xinference_stream ?self [] ''hi'' None False
             [(''generate_config'', PDict [(''stream'', PBool False)])])))
      = map Inr [\<lparr> chunk_text = ''a'',
           generation_info = Some [(''finish_reason'', PNone), (''logprobs'', PNone)] \<rparr>,
        \<lparr> chunk_text = ''b'',
           generation_info = Some [(''finish_reason'', PNone), (''logprobs'', PNone)] \<rparr>]"
    unfolding conv by simp
  then have w4: "yielded (snd (Xinference_stream ?self [] ''hi'' None False
             [(''generate_config'', PDict [(''stream'', PBool False)])]))
      = [\<lparr> chunk_text = ''a'',
           generation_info = Some [(''finish_reason'', PNone), (''logprobs'', PNone)] \<rparr>,
        \<lparr> chunk_text = ''b'',
           generation_info = Some [(''finish_reason'', PNone), (''logprobs'', PNone)] \<rparr>]"
    by (simp only: inj_map_eq_map [OF inj_Inr])
  have "raised (snd (Xinference_astream ?self [] ''hi'' None False []))
      = map_option projl
          (find isl (map stream_response_to_generation_chunk (filter truthy ?fs)))"
    using t2 [THEN conjunct2, THEN conjunct2, THEN conjunct2, THEN conjunct2, THEN conjunct2,
        THEN conjunct2] kwargs_demo(2) sb(2)
    by blast
  then have w5: "raised (snd (Xinference_astream ?self [] ''hi'' None False [])) = None"
    unfolding conv by simp
  from w1 w2 w3 w4 w5 show ?thesis
    by (intro conjI)
qed

section \<open>Falsy fragments\<close>

lemma stream_loop_skips_falsy:
  "\<not> truthy f
   \<Longrightarrow> stream_loop run_manager (pre @ f # post) = stream_loop run_manager (pre @ post)"
  by (induction pre) (auto split: sum.splits)

lemma empty_chunk_iff:
  "stream_response_to_generation_chunk (PDict d)
     = Inr \<lparr> chunk_text = [], generation_info = None \<rparr>
   \<longleftrightarrow> \<not> truthy (dict_get d ''choices'' (PList []))"
proof (cases "truthy (dict_get d ''choices'' (PList []))")
  case False
  then show ?thesis by (simp add: stream_response_to_generation_chunk_def)
next
  case True
  have "new_GenerationChunk v (Some info) \<noteq> Inr \<lparr> chunk_text = [], generation_info = None \<rparr>"
    for v info
    by (cases v) auto
  with True show ?thesis
    by (auto simp: stream_response_to_generation_chunk_def split: sum.splits pyval.splits)
qed

text \<open>
  C10, as stated, fails in its last part. The cluster streams the one fragment
  \<^verbatim>\<open>{"id": 1}\<close>, which is true and has no \<^verbatim>\<open>choices\<close> key: \<^verbatim>\<open>_stream\<close> and
  \<^verbatim>\<open>_astream\<close> yield exactly one chunk with empty text and no \<^verbatim>\<open>generation_info\<close>. So
  that chunk is not kept for the fragments that contain a \<^verbatim>\<open>choices\<close> key with an empty
  list.
\<close>

theorem fragment_without_choices_key_yields_empty_chunk:
  "Xinference_stream (demo_llm [] (StreamIter [PDict [(''id'', PInt 1)]])) [] ''hi'' None False []
     = ([GetModel ''m'', Generate ''hi'' [(''stream'', PBool True)]],
        Yield [] \<lparr> chunk_text = [], generation_info = None \<rparr> Stop)
   \<and> Xinference_astream (demo_llm [] (StreamIter [PDict [(''id'', PInt 1)]])) [] ''hi'' None
       False []
     = ([GetModel ''m'', Generate ''hi'' [(''stream'', PBool True)]],
        Yield [] \<lparr> chunk_text = [], generation_info = None \<rparr> Stop)"
  by (simp add: Xinference_stream_def Xinference_astream_def stream_via_def
        kwargs_generate_config_def dict_get_def stream_options_def force_stream_def
        dict_merge_def demo_llm_def fixed_client_def fixed_model_def
        stream_response_to_generation_chunk_def)

text \<open>
  C10, amended. In \<^verbatim>\<open>_stream\<close> and \<^verbatim>\<open>_astream\<close> a fragment that is false (the empty
  mapping, \<^verbatim>\<open>None\<close>, an empty string or list, a zero) is skipped before conversion: the
  generator is the one of the fragments without it, so it yields no chunk for it and
  raises nothing for it; a stream of the empty mapping alone yields nothing. A mapping
  that is not empty, when the loop reaches it, gives exactly one chunk with empty text and
  no \<^verbatim>\<open>generation_info\<close> if and only if its \<^verbatim>\<open>choices\<close> is absent or false (the empty
  list in particular).
\<close>

theorem falsy_fragment_skipped:
  assumes kw: "kwargs_generate_config kwargs = Inr gc"
  shows "(\<not> truthy f
          \<and> streams_back (llm_client self) self h prompt (stream_options self stop gc)
               (pre @ f # post)
          \<longrightarrow> snd (Xinference_stream self h prompt stop run_manager kwargs)
                = stream_loop run_manager (pre @ post))
       \<and> (\<not> truthy f
          \<and> streams_back (llm_async_client self) self h prompt (stream_options self stop gc)
               (pre @ f # post)
          \<longrightarrow> snd (Xinference_astream self h prompt stop run_manager kwargs)
                = stream_loop run_manager (pre @ post))
       \<and> (streams_back (llm_client self) self h prompt (stream_options self stop gc) [PDict []]
          \<longrightarrow> snd (Xinference_stream self h prompt stop run_manager kwargs) = Stop)
       \<and> (streams_back (llm_async_client self) self h prompt (stream_options self stop gc)
               [PDict []]
          \<longrightarrow> snd (Xinference_astream self h prompt stop run_manager kwargs) = Stop)
       \<and> (d \<noteq> []
          \<and> streams_back (llm_client self) self h prompt (stream_options self stop gc)
               (PDict d # post)
          \<longrightarrow> (snd (Xinference_stream self h prompt stop run_manager kwargs)
                 = Yield (if run_manager then [NewToken (PStr []) None] else [])
                     \<lparr> chunk_text = [], generation_info = None \<rparr>
                     (stream_loop run_manager post))
              = (\<not> truthy (dict_get d ''choices'' (PList []))))
       \<and> (d \<noteq> []
          \<and> streams_back (llm_async_client self) self h prompt (stream_options self stop gc)
               (PDict d # post)
          \<longrightarrow> (snd (Xinference_astream self h prompt stop run_manager kwargs)
                 = Yield (if run_manager then [NewToken (PStr []) None] else [])
                     \<lparr> chunk_text = [], generation_info = None \<rparr>
                     (stream_loop run_manager post))
              = (\<not> truthy (dict_get d ''choices'' (PList []))))"
proof -
  have skip: "snd (stream_via client self h prompt stop run_manager kwargs)
                = stream_loop run_manager (pre @ post)"
    if "\<not> truthy f
          \<and> streams_back client self h prompt (stream_options self stop gc) (pre @ f # post)"
    for client pre post f
    using that stream_via_streams_back [OF kw, of client self h prompt stop "pre @ f # post"
        run_manager] stream_loop_skips_falsy [of f run_manager pre post]
    by simp
  have none: "snd (stream_via client self h prompt stop run_manager kwargs) = Stop"
    if "streams_back client self h prompt (stream_options self stop gc) [PDict []]"
    for client
    using skip [of "PDict []" client "[]" "[]"] that by simp
  have one: "(snd (stream_via client self h prompt stop run_manager kwargs)
                 = Yield (if run_manager then [NewToken (PStr []) None] else [])
                     \<lparr> chunk_text = [], generation_info = None \<rparr>
                     (stream_loop run_manager post))
              = (\<not> truthy (dict_get d ''choices'' (PList [])))"
    if "d \<noteq> []
          \<and> streams_back client self h prompt (stream_options self stop gc) (PDict d # post)"
    for client
  proof -
    from that have run: "snd (stream_via client self h prompt stop run_manager kwargs)
                      = stream_loop run_manager (PDict d # post)"
      using stream_via_streams_back [OF kw, of client self h prompt stop "PDict d # post"
          run_manager] by simp
    show ?thesis
    proof (cases "stream_response_to_generation_chunk (PDict d)")
      case (Inl e)
      with that run empty_chunk_iff [of d] show ?thesis by simp
    next
      case (Inr chunk)
      with that run empty_chunk_iff [of d] show ?thesis by auto
    qed
  qed
  show ?thesis
    unfolding Xinference_stream_def Xinference_astream_def
    using skip [of f _ pre post] none one by blast
qed

theorem falsy_fragment_skipped_witness:
  "snd (Xinference_stream
         (demo_llm []
            (StreamIter [PDict [(''choices'', PList [PDict [(''text'', PStr ''a'')]])],
                         PDict [],
                         PDict [(''choices'', PList [PDict [(''text'', PStr ''b'')]])]]))
         [] ''hi'' None False [])
     = Yield [] \<lparr> chunk_text = ''a'',
                  generation_info = Some [(''finish_reason'', PNone), (''logprobs'', PNone)] \<rparr>
        (Yield [] \<lparr> chunk_text = ''b'',
                  generation_info = Some [(''finish_reason'', PNone), (''logprobs'', PNone)] \<rparr>
           Stop)
   \<and> snd (Xinference_astream (demo_llm [] (StreamIter [PNone, PStr []])) [] ''hi'' None False [])
     = Stop
   \<and> snd (Xinference_astream (demo_llm [] (StreamIter [PDict []])) [] ''hi'' None False [])
     = Stop
   \<and> snd (Xinference_stream (demo_llm [] (StreamIter [PDict [(''choices'', PList [])]]))
            [] ''hi'' None True [])
     = Yield [NewToken (PStr []) None] \<lparr> chunk_text = [], generation_info = None \<rparr> Stop"
proof -
  let ?a = "PDict [(''choices'', PList [PDict [(''text'', PStr ''a'')]])]"
  let ?b = "PDict [(''choices'', PList [PDict [(''text'', PStr ''b'')]])]"
  have sb: "streams_back (llm_client (demo_llm [] (StreamIter fs))) (demo_llm [] (StreamIter fs))
              [] ''hi'' (stream_options (demo_llm [] (StreamIter fs)) None []) fs"
      "streams_back (llm_async_client (demo_llm [] (StreamIter fs)))
              (demo_llm [] (StreamIter fs)) [] ''hi''
              (stream_options (demo_llm [] (StreamIter fs)) None []) fs" for fs
    by (rule streams_back_demo)+
  note t = falsy_fragment_skipped [OF kwargs_demo(2), where stop = None and h = "[]"
      and prompt = "''hi''"]
  have w1: "snd (Xinference_stream (demo_llm [] (StreamIter [?a, PDict [], ?b]))
                  [] ''hi'' None False [])
              = stream_loop False ([?a] @ [?b])"
    using t [where self = "demo_llm [] (StreamIter [?a, PDict [], ?b])" and f = "PDict []"
        and pre = "[?a]" and post = "[?b]" and run_manager = False, THEN conjunct1]
      sb(1) [of "[?a, PDict [], ?b]"]
    by simp
  have w2: "snd (Xinference_astream (demo_llm [] (StreamIter [PNone, PStr []]))
                  [] ''hi'' None False [])
              = stream_loop False ([PNone] @ [])"
    using t [where self = "demo_llm [] (StreamIter [PNone, PStr []])" and f = "PStr []"
        and pre = "[PNone]" and post = "[]" and run_manager = False,
        THEN conjunct2, THEN conjunct1]
      sb(2) [of "[PNone, PStr []]"]
    by simp
  have w3: "snd (Xinference_astream (demo_llm [] (StreamIter [PDict []]))
                  [] ''hi'' None False []) = Stop"
    using t [where self = "demo_llm [] (StreamIter [PDict []])" and run_manager = False,
        THEN conjunct2, THEN conjunct2, THEN conjunct2, THEN conjunct1]
      sb(2) [of "[PDict []]"]
    by simp
  have w4: "snd (Xinference_stream (demo_llm [] (StreamIter [PDict [(''choices'', PList [])]]))
                  [] ''hi'' None True [])
              = Yield (if True then [NewToken (PStr []) None] else [])
                  \<lparr> chunk_text = [], generation_info = None \<rparr> (stream_loop True [])"
    using t [where self = "demo_llm [] (StreamIter [PDict [(''choices'', PList [])]])"
        and d = "[(''choices'', PList [])]" and post = "[]" and run_manager = True,
        THEN conjunct2, THEN conjunct2, THEN conjunct2, THEN conjunct2, THEN conjunct1]
      sb(1) [of "[PDict [(''choices'', PList [])]]"]
    by (simp add: dict_get_def)
  from w1 w2 w3 w4 show ?thesis
    by (simp add: stream_response_to_generation_chunk_def dict_get_def)
qed

end
